theory Spec2Isabelle
  imports Complex_Main "HOL-Library.Multiset"
begin

section \<open>Python values\<close>

text \<open>
  A Python \<open>str\<close> is a sequence of Unicode code points: \<open>len\<close>, slicing, \<open>count\<close> and
  \<open>==\<close> all work on code points. A code point is a natural number here, so that the
  non-ASCII literal of \<open>search.py\<close> can be written as the source has it.
\<close>

type_synonym pystr = "nat list"

definition py :: "string \<Rightarrow> pystr" where
  "py s = map of_char s"

text \<open>
  The values a metadata dictionary (\<open>Dict[str, Any]\<close>) holds: what the vector store
  accepts (str, int, float, bool), and \<open>None\<close>.
\<close>

text \<open>
  A Python \<open>float\<close>: a number, an infinity or NaN. \<open>py_lt\<close> is \<open><\<close> and
  \<open>py_ge\<close> is \<open>>=\<close>; every comparison with NaN is false.
\<close>

datatype pyfloat = Num real | PosInf | NegInf | NaN

fun py_lt :: "pyfloat \<Rightarrow> pyfloat \<Rightarrow> bool" where
  "py_lt (Num a) (Num b) = (a < b)"
| "py_lt NegInf (Num b) = True"
| "py_lt NegInf PosInf = True"
| "py_lt (Num a) PosInf = True"
| "py_lt a b = False"


datatype pyval = PNone | PBool bool | PInt int | PFloat pyfloat | PStr pystr

text \<open>Python truthiness of such a value.\<close>

fun truthy :: "pyval \<Rightarrow> bool" where
  "truthy PNone = False"
| "truthy (PBool b) = b"
| "truthy (PInt i) = (i \<noteq> 0)"
| "truthy (PFloat x) = (x \<noteq> Num 0)"
| "truthy (PStr s) = (s \<noteq> [])"

type_synonym pydict = "pystr \<rightharpoonup> pyval"

section \<open>Data model (\<open>data_models.py\<close>)\<close>

record Product =
  product_id :: pystr
  product_name :: pystr
  category :: "pystr option"
  description :: "pystr option"
  price_usd :: "pyfloat option"
  currency_code :: "pystr option"
  margin_percentage :: "pyfloat option"
  key_ingredients :: "pystr list option"
  tags :: "pystr list option"
  image_url :: "pystr option"

record ParsedDocument =
  pd_id :: pystr
  pd_source_type :: pystr
  pd_content :: pystr
  pd_metadata :: pydict

record DocumentChunk =
  chunk_id :: pystr
  document_id :: pystr
  text_chunk :: pystr
  source_type :: pystr
  metadata :: pydict

record SearchQuery =
  query :: pystr
  sq_session_id :: "pystr option"

record ProductResult =
  product :: Product
  justification :: "pystr option"
  supporting_reviews :: "DocumentChunk list"

record SearchResponse =
  session_id :: "pystr option"
  results :: "ProductResult list option"
  rag_contexts :: "DocumentChunk list option"
  follow_up_questions :: "pystr list option"
  answer :: "pystr option"
  contextual_justification :: "pystr option"

text \<open>Truthiness of an \<open>Optional[List[...]]\<close> and of an \<open>Optional[str]\<close>, and the list read from it.\<close>

fun nonempty :: "'a list option \<Rightarrow> bool" where
  "nonempty None = False"
| "nonempty (Some xs) = (xs \<noteq> [])"

fun the_list :: "'a list option \<Rightarrow> 'a list" where
  "the_list None = []"
| "the_list (Some xs) = xs"

section \<open>The chunker (\<open>rag_pipeline.py\<close>)\<close>

definition TEXT_CHUNK_SIZE :: nat where
  "TEXT_CHUNK_SIZE = 512"

definition TEXT_CHUNK_OVERLAP :: nat where
  "TEXT_CHUNK_OVERLAP = 50"

text \<open>Python's \<open>text[start:end]\<close> for \<open>0 \<le> start \<le> end\<close>.\<close>

definition py_slice :: "'a list \<Rightarrow> nat \<Rightarrow> nat \<Rightarrow> 'a list" where
  "py_slice text start end = take (end - start) (drop start text)"

text \<open>
  The \<open>DocumentChunk(...)\<close> built in the loop body. Its \<open>chunk_id\<close> comes from the
  default factory \<open>uuid4\<close>; the fresh identifier is an argument here.
\<close>

definition make_chunk :: "pystr \<Rightarrow> ParsedDocument \<Rightarrow> nat \<Rightarrow> DocumentChunk" where
  "make_chunk uuid p_doc start =
     \<lparr> chunk_id = uuid,
       document_id = pd_id p_doc,
       text_chunk = py_slice (pd_content p_doc) start (start + TEXT_CHUNK_SIZE),
       source_type = pd_source_type p_doc,
       metadata = (pd_metadata p_doc)
         (py ''original_doc_id'' \<mapsto> PStr (pd_id p_doc),
          py ''source_type'' \<mapsto> PStr (pd_source_type p_doc)) \<rparr>"

text \<open>
  The \<open>while start < len(text)\<close> loop of one document. \<open>uuids\<close> is the supply of
  fresh identifiers and \<open>k\<close> the number of chunks created so far.
\<close>

function chunk_document :: "(nat \<Rightarrow> pystr) \<Rightarrow> nat \<Rightarrow> ParsedDocument \<Rightarrow> nat \<Rightarrow> DocumentChunk list" where
  "chunk_document uuids k p_doc start =
     (if start < length (pd_content p_doc)
      then make_chunk (uuids k) p_doc start #
           (let start' = start + (TEXT_CHUNK_SIZE - TEXT_CHUNK_OVERLAP)
            in if start' \<ge> length (pd_content p_doc) then []
               else chunk_document uuids (Suc k) p_doc start')
      else [])"
  by pat_completeness auto
termination
  by (relation "measure (\<lambda>(uuids, k, p_doc, start). length (pd_content p_doc) - start)")
     (auto simp: TEXT_CHUNK_SIZE_def TEXT_CHUNK_OVERLAP_def)

declare chunk_document.simps [simp del]

text \<open>The \<open>for p_doc in parsed_docs\<close> loop; \<open>all_chunks\<close> is the returned list.\<close>

fun chunk_docs_from :: "(nat \<Rightarrow> pystr) \<Rightarrow> nat \<Rightarrow> ParsedDocument list \<Rightarrow> DocumentChunk list" where
  "chunk_docs_from uuids k [] = []"
| "chunk_docs_from uuids k (p_doc # rest) =
     (let cs = chunk_document uuids k p_doc 0
      in cs @ chunk_docs_from uuids (k + length cs) rest)"

definition chunk_parsed_documents :: "(nat \<Rightarrow> pystr) \<Rightarrow> ParsedDocument list \<Rightarrow> DocumentChunk list" where
  "chunk_parsed_documents uuids parsed_docs = chunk_docs_from uuids 0 parsed_docs"

text \<open>
  The chunk count the specification states: \<open>ceil((L - O) / (W - O))\<close> when \<open>L > W\<close>,
  else one.
\<close>

definition spec_chunk_count :: "nat \<Rightarrow> nat" where
  "spec_chunk_count L =
     (if L > TEXT_CHUNK_SIZE
      then nat \<lceil>(real L - real TEXT_CHUNK_OVERLAP) / (real TEXT_CHUNK_SIZE - real TEXT_CHUNK_OVERLAP)\<rceil>
      else 1)"

text \<open>
  Overlap removal as the specification describes it: the first \<open>O\<close> characters of every
  chunk but the first are dropped, and the rest is concatenated.
\<close>

fun remove_overlap :: "pystr list \<Rightarrow> pystr" where
  "remove_overlap [] = []"
| "remove_overlap (t # ts) = t @ concat (map (drop TEXT_CHUNK_OVERLAP) ts)"

section \<open>The generative-model call (\<open>llm_handler.py\<close>)\<close>

text \<open>
  One entry of the list \<open>query_vector_store\<close> returns: the dictionary with the keys
  \<open>id\<close>, \<open>text_chunk\<close>, \<open>metadata\<close> and \<open>distance\<close>.
\<close>

record rag_raw =
  rr_id :: pystr
  rr_text_chunk :: "pystr option"
  rr_metadata :: "pydict option"
  rr_distance :: "pyfloat option"

text \<open>A conversation turn \<open>{"role": ..., "parts": [...]}\<close>.\<close>

record turn =
  role :: pystr
  parts :: "pystr list"

text \<open>
  The exceptions the retry loop tells apart, each the most specific class that one of its
  \<open>except\<close> clauses names; \<open>ValueError\<close> carries its message, \<open>OtherException\<close> is
  anything only \<open>except Exception\<close> catches.
\<close>

datatype llm_exception =
    JSONDecodeError
  | ValidationError
  | ValueError pystr
  | ResourceExhausted
  | InternalServerError
  | ServiceUnavailable
  | DeadlineExceeded
  | BlockedPromptException
  | StopCandidateException
  | GoogleAPIError
  | OtherException

text \<open>
  What \<open>json.loads\<close> and \<open>SearchResponse(**llm_json_response)\<close> make of the model's
  output: the validated fields, and the two identifier lists read from the raw JSON.
\<close>

record llm_result_json =
  lr_product :: Product
  lr_justification :: "pystr option"
  lr_supporting_reviews :: "DocumentChunk list"
  lr_supporting_review_chunk_ids :: "pystr list"

record llm_json =
  lj_session_id :: "pystr option"
  lj_results :: "llm_result_json list option"
  lj_used_rag_context_ids :: "pystr list"
  lj_follow_up_questions :: "pystr list option"
  lj_answer :: "pystr option"
  lj_contextual_justification :: "pystr option"

datatype llm_reply = SendRaises llm_exception | ReplyText pystr

text \<open>
  The collaborators of a request. \<open>send_message\<close> is the generative model: its reply to
  the prompt built from the query, the retrieved contexts and the history, at a given
  attempt. \<open>json_decode\<close> is the JSON decoder followed by schema validation. \<open>uuid4\<close> is
  the fresh identifier a request may draw. \<open>vector_store\<close> is \<open>query_vector_store\<close> with its \<open>n_results\<close>
  (\<open>None\<close> when it raises), \<open>catalog\<close> is \<open>get_products_from_file\<close> (\<open>None\<close> when it
  raises its \<open>HTTPException\<close>), and \<open>str_lower\<close> is \<open>str.lower\<close>.
\<close>

record environment =
  GOOGLE_API_KEY :: "pystr option"
  send_message :: "pystr \<Rightarrow> rag_raw list \<Rightarrow> turn list \<Rightarrow> nat \<Rightarrow> llm_reply"
  json_decode :: "pystr \<Rightarrow> llm_exception + llm_json"
  uuid4 :: pystr
  vector_store :: "pystr \<Rightarrow> nat \<Rightarrow> rag_raw list option"
  catalog :: "Product list option"
  str_lower :: "pystr \<Rightarrow> pystr"

text \<open>\<open>str.find\<close> and \<open>str.rfind\<close> of a single character: an index, or \<open>-1\<close>.\<close>

fun py_find :: "nat \<Rightarrow> pystr \<Rightarrow> int" where
  "py_find c [] = - 1"
| "py_find c (x # xs) =
     (if x = c then 0 else (let r = py_find c xs in if r = - 1 then - 1 else r + 1))"

definition py_rfind :: "nat \<Rightarrow> pystr \<Rightarrow> int" where
  "py_rfind c s = (let r = py_find c (rev s) in if r = - 1 then - 1 else int (length s) - 1 - r)"

text \<open>\<open>sub in s\<close> for strings.\<close>

fun py_contains :: "pystr \<Rightarrow> pystr \<Rightarrow> bool" where
  "py_contains sub [] = (sub = [])"
| "py_contains sub (x # xs) = (take (length sub) (x # xs) = sub \<or> py_contains sub xs)"

definition MARKERS_MESSAGE :: pystr where
  "MARKERS_MESSAGE = py ''LLM output not in expected JSON format (markers not found).''"

text \<open>
  The Python exceptions that leave \<open>get_conversational_response\<close>; the search handler
  turns each into an HTTP error.
\<close>

datatype python_error = TypeError | AttributeError | UnboundLocalError

text \<open>
  \<open>_format_rag_contexts\<close>, called before the loop and outside its \<open>try\<close>: the text it
  returns only enters the prompt, so this is the exception it raises, if any. An entry
  whose \<open>text_chunk\<close> is \<open>None\<close> fails at \<open>len\<close>, one whose \<open>metadata\<close> is \<open>None\<close>
  at \<open>metadata_info.get\<close>.
\<close>

fun format_rag_contexts_error :: "rag_raw list \<Rightarrow> python_error option" where
  "format_rag_contexts_error [] = None"
| "format_rag_contexts_error (context # rest) =
     (case rr_text_chunk context of
        None \<Rightarrow> Some TypeError
      | Some chunk_text \<Rightarrow>
          (case rr_metadata context of
             None \<Rightarrow> Some AttributeError
           | Some metadata_info \<Rightarrow> format_rag_contexts_error rest))"

text \<open>
  The body of the \<open>try\<close> up to the validated response: send the prompt, cut the text from
  the first \<open>{\<close> to the last \<open>}\<close>, decode and validate. The locals \<open>raw_llm_output\<close> and
  \<open>json_string\<close> are returned with the outcome: they keep the value of an earlier attempt
  until they are assigned again, and \<open>None\<close> stands for unbound.
\<close>

definition try_body ::
  "environment \<Rightarrow> pystr \<Rightarrow> rag_raw list \<Rightarrow> turn list \<Rightarrow> nat \<Rightarrow> pystr option \<Rightarrow> pystr option \<Rightarrow>
   (llm_exception + llm_json) \<times> pystr option \<times> pystr option" where
  "try_body env q rags history attempt raw_llm_output json_string =
     (case send_message env q rags history attempt of
        SendRaises e \<Rightarrow> (Inl e, raw_llm_output, json_string)
      | ReplyText raw \<Rightarrow>
          (let json_start_index = py_find 123 raw;
               json_end_index = py_rfind 125 raw
           in if json_start_index = - 1 \<or> json_end_index = - 1
              then (Inl (ValueError MARKERS_MESSAGE), Some raw, json_string)
              else (json_decode env (py_slice raw (nat json_start_index) (nat (json_end_index + 1))),
                    Some raw,
                    Some (py_slice raw (nat json_start_index) (nat (json_end_index + 1))))))"

text \<open>What the \<open>try\<close> body of an attempt ends in, whatever the locals were.\<close>

definition attempt_outcome ::
  "environment \<Rightarrow> pystr \<Rightarrow> rag_raw list \<Rightarrow> turn list \<Rightarrow> nat \<Rightarrow> llm_exception + llm_json" where
  "attempt_outcome env q rags history attempt = fst (try_body env q rags history attempt None None)"

text \<open>
  \<open>raw_dict_map\<close>: the dictionary comprehension over the retrieved entries with a truthy
  id; a later entry replaces an earlier one with the same id.
\<close>

definition raw_dict_map :: "rag_raw list \<Rightarrow> (pystr \<rightharpoonup> rag_raw)" where
  "raw_dict_map rag_contexts_raw_dicts =
     map_of (rev (map (\<lambda>raw_dict. (rr_id raw_dict, raw_dict))
                    (filter (\<lambda>raw_dict. rr_id raw_dict \<noteq> []) rag_contexts_raw_dicts)))"

fun opt_truthy :: "pyval option \<Rightarrow> bool" where
  "opt_truthy None = False"
| "opt_truthy (Some v) = truthy v"

fun opt_str_truthy :: "pystr option \<Rightarrow> bool" where
  "opt_str_truthy None = False"
| "opt_str_truthy (Some s) = (s \<noteq> [])"

text \<open>
  The \<open>DocumentChunk(...)\<close> call of hydration. The model validates its fields:
  \<open>document_id\<close> and \<open>source_type\<close> must be strings, and a validation error is caught by
  the \<open>try\<close> around the call, which skips the chunk.
\<close>

fun build_chunk :: "pystr \<Rightarrow> pyval option \<Rightarrow> pyval option \<Rightarrow> pystr option \<Rightarrow> pydict \<Rightarrow> DocumentChunk option" where
  "build_chunk cid (Some (PStr doc_id_val)) (Some (PStr source_type_val)) (Some text_chunk_val) md =
     Some \<lparr> chunk_id = cid, document_id = doc_id_val, text_chunk = text_chunk_val,
            source_type = source_type_val, metadata = md \<rparr>"
| "build_chunk cid doc_id_val source_type_val text_chunk_val md = None"

definition hydrate_context :: "pystr \<Rightarrow> rag_raw \<Rightarrow> DocumentChunk option" where
  "hydrate_context chunk_id_from_llm raw_dict =
     (let current_metadata = (case rr_metadata raw_dict of None \<Rightarrow> Map.empty | Some m \<Rightarrow> m);
          doc_id_val = current_metadata (py ''original_doc_id'');
          source_type_val = current_metadata (py ''source_type'');
          text_chunk_val = rr_text_chunk raw_dict
      in if \<not> (chunk_id_from_llm \<noteq> [] \<and> opt_truthy doc_id_val \<and> opt_truthy source_type_val
                \<and> opt_str_truthy text_chunk_val)
         then None
         else build_chunk chunk_id_from_llm doc_id_val source_type_val text_chunk_val current_metadata)"

definition hydrate_review :: "pystr \<Rightarrow> rag_raw \<Rightarrow> DocumentChunk option" where
  "hydrate_review review_chunk_id raw_review_dict =
     (let current_metadata = (case rr_metadata raw_review_dict of None \<Rightarrow> Map.empty | Some m \<Rightarrow> m);
          doc_id_val = current_metadata (py ''original_doc_id'');
          source_type_val = current_metadata (py ''source_type'');
          text_chunk_val = rr_text_chunk raw_review_dict
      in if \<not> (review_chunk_id \<noteq> [] \<and> opt_truthy doc_id_val \<and> opt_truthy source_type_val
                \<and> opt_str_truthy text_chunk_val)
         then None
         else if source_type_val \<noteq> Some (PStr (py ''review'')) then None
         else build_chunk review_chunk_id doc_id_val source_type_val text_chunk_val current_metadata)"

text \<open>The two hydration loops: an identifier outside the retrieved batch is dropped.\<close>

fun hydrate_used :: "(pystr \<rightharpoonup> rag_raw) \<Rightarrow> pystr list \<Rightarrow> DocumentChunk list" where
  "hydrate_used m [] = []"
| "hydrate_used m (chunk_id_from_llm # rest) =
     (case m chunk_id_from_llm of
        None \<Rightarrow> hydrate_used m rest
      | Some raw_dict \<Rightarrow>
          (case hydrate_context chunk_id_from_llm raw_dict of
             None \<Rightarrow> hydrate_used m rest
           | Some c \<Rightarrow> c # hydrate_used m rest))"

fun hydrate_reviews :: "(pystr \<rightharpoonup> rag_raw) \<Rightarrow> pystr list \<Rightarrow> DocumentChunk list" where
  "hydrate_reviews m [] = []"
| "hydrate_reviews m (review_chunk_id # rest) =
     (case m review_chunk_id of
        None \<Rightarrow> hydrate_reviews m rest
      | Some raw_review_dict \<Rightarrow>
          (case hydrate_review review_chunk_id raw_review_dict of
             None \<Rightarrow> hydrate_reviews m rest
           | Some c \<Rightarrow> c # hydrate_reviews m rest))"

text \<open>
  A parsed result: with retrieved contexts its supporting reviews are the hydrated ones,
  otherwise they stay as validation read them from the model's JSON.
\<close>

definition result_of_json :: "rag_raw list \<Rightarrow> llm_result_json \<Rightarrow> ProductResult" where
  "result_of_json rag_contexts_raw_dicts raw_llm_product_item =
     \<lparr> product = lr_product raw_llm_product_item,
       justification = lr_justification raw_llm_product_item,
       supporting_reviews =
         (if rag_contexts_raw_dicts \<noteq> []
          then hydrate_reviews (raw_dict_map rag_contexts_raw_dicts)
                 (lr_supporting_review_chunk_ids raw_llm_product_item)
          else lr_supporting_reviews raw_llm_product_item) \<rparr>"

text \<open>The response a successful attempt returns.\<close>

definition build_response :: "environment \<Rightarrow> rag_raw list \<Rightarrow> pystr option \<Rightarrow> llm_json \<Rightarrow> SearchResponse" where
  "build_response env rag_contexts_raw_dicts sid llm_json_response =
     \<lparr> session_id =
         (if opt_str_truthy (lj_session_id llm_json_response) then lj_session_id llm_json_response
          else if opt_str_truthy sid then sid
          else Some (uuid4 env)),
       results = map_option (map (result_of_json rag_contexts_raw_dicts)) (lj_results llm_json_response),
       rag_contexts =
         Some (hydrate_used (raw_dict_map rag_contexts_raw_dicts)
                 (lj_used_rag_context_ids llm_json_response)),
       follow_up_questions =
         (case lj_follow_up_questions llm_json_response of None \<Rightarrow> Some [] | Some qs \<Rightarrow> Some qs),
       answer = lj_answer llm_json_response,
       contextual_justification = lj_contextual_justification llm_json_response \<rparr>"

text \<open>The canned responses.\<close>

definition degraded :: "pystr option \<Rightarrow> pystr \<Rightarrow> pystr \<Rightarrow> SearchResponse" where
  "degraded sid error_message error_justification =
     \<lparr> session_id = sid, results = Some [], rag_contexts = Some [], follow_up_questions = Some [],
       answer = Some error_message, contextual_justification = Some error_justification \<rparr>"

text \<open>The \<open>isinstance\<close> chain over \<open>last_exception\<close> after the loop.\<close>

fun error_texts :: "llm_exception option \<Rightarrow> pystr \<times> pystr" where
  "error_texts (Some JSONDecodeError) =
     (py ''Sorry, I had trouble processing that. Could you try rephrasing?'',
      py ''LLM response parsing error after multiple attempts.'')"
| "error_texts (Some ValidationError) =
     (py ''Sorry, I encountered an issue with the response structure. Please try again.'',
      py ''LLM response validation error after multiple attempts.'')"
| "error_texts (Some (ValueError msg)) =
     (if py_contains (py ''LLM output not in expected JSON format'') msg
      then (py ''Sorry, I couldn't generate a structured response. Please try again.'',
            py ''LLM output format error after multiple attempts.'')
      else (py ''Sorry, I'm having trouble connecting to my brain right now. Please try again later.'',
            py ''LLM API call failed after multiple attempts.''))"
| "error_texts (Some ResourceExhausted) =
     (py ''I'm a bit overwhelmed at the moment. Please try again in a few moments.'',
      py ''Rate limit reached. Please try again later.'')"
| "error_texts (Some InternalServerError) =
     (py ''There seems to be a temporary issue with the AI service. Please try again shortly.'',
      py ''AI service unavailable or server error.'')"
| "error_texts (Some ServiceUnavailable) =
     (py ''There seems to be a temporary issue with the AI service. Please try again shortly.'',
      py ''AI service unavailable or server error.'')"
| "error_texts (Some DeadlineExceeded) =
     (py ''There seems to be a temporary issue with the AI service. Please try again shortly.'',
      py ''AI service unavailable or server error.'')"
| "error_texts (Some GoogleAPIError) =
     (py ''An issue occurred while communicating with the AI service. Please try again.'',
      py ''AI service communication error.'')"
| "error_texts last_exception =
     (py ''Sorry, I'm having trouble connecting to my brain right now. Please try again later.'',
      py ''LLM API call failed after multiple attempts.'')"

definition max_retries :: nat where
  "max_retries = 3"

text \<open>
  The \<open>except\<close> clauses. Three of them log a slice of \<open>raw_llm_output\<close> or of
  \<open>json_string\<close>: when the exception came before that local was ever assigned, reading it
  raises \<open>UnboundLocalError\<close> inside the handler, which leaves the function. The two
  non-retriable exceptions return a canned response; every other clause stores the
  exception and goes on.
\<close>

datatype handler_action = Continue | ReturnResponse SearchResponse | Raise python_error

fun except_clause :: "pystr option \<Rightarrow> llm_exception \<Rightarrow> pystr option \<Rightarrow> pystr option \<Rightarrow> handler_action" where
  "except_clause sid JSONDecodeError raw_llm_output json_string =
     (if raw_llm_output = None then Raise UnboundLocalError else Continue)"
| "except_clause sid ValidationError raw_llm_output json_string =
     (if json_string = None then Raise UnboundLocalError else Continue)"
| "except_clause sid (ValueError msg) raw_llm_output json_string =
     (if raw_llm_output = None then Raise UnboundLocalError else Continue)"
| "except_clause sid BlockedPromptException raw_llm_output json_string =
     ReturnResponse
       (degraded sid (py ''The request could not be processed due to content policy.'')
          (py ''Content policy violation.''))"
| "except_clause sid StopCandidateException raw_llm_output json_string =
     ReturnResponse
       (degraded sid
          (py ''The response generation was stopped. This might be due to safety settings or other reasons.'')
          (py ''Response generation incomplete.''))"
| "except_clause sid e raw_llm_output json_string = Continue"

text \<open>
  The \<open>for attempt in range(max_retries)\<close> loop over the remaining attempt numbers, with
  \<open>last_exception\<close> and the two locals. The sleep between attempts has no effect on the
  value.
\<close>

fun retry_loop ::
  "environment \<Rightarrow> pystr \<Rightarrow> rag_raw list \<Rightarrow> pystr option \<Rightarrow> turn list \<Rightarrow> nat list \<Rightarrow>
   llm_exception option \<Rightarrow> pystr option \<Rightarrow> pystr option \<Rightarrow> python_error + SearchResponse" where
  "retry_loop env q rags sid history [] last_exception raw_llm_output json_string =
     (case error_texts last_exception of
        (error_message, error_justification) \<Rightarrow> Inr (degraded sid error_message error_justification))"
| "retry_loop env q rags sid history (attempt # rest) last_exception raw_llm_output json_string =
     (case try_body env q rags history attempt raw_llm_output json_string of
        (Inr llm_json_response, raw_llm_output', json_string') \<Rightarrow>
          Inr (build_response env rags sid llm_json_response)
      | (Inl e, raw_llm_output', json_string') \<Rightarrow>
          (case except_clause sid e raw_llm_output' json_string' of
             Continue \<Rightarrow> retry_loop env q rags sid history rest (Some e) raw_llm_output' json_string'
           | ReturnResponse response \<Rightarrow> Inr response
           | Raise err \<Rightarrow> Inl err))"

definition get_conversational_response ::
  "environment \<Rightarrow> pystr \<Rightarrow> rag_raw list \<Rightarrow> pystr option \<Rightarrow> turn list \<Rightarrow> python_error + SearchResponse" where
  "get_conversational_response env q rag_contexts_raw_dicts sid conversation_history =
     (if \<not> opt_str_truthy (GOOGLE_API_KEY env)
      then Inr (degraded sid (py ''LLM service is not configured. Please provide an API key.'')
             (py ''LLM service unavailable.''))
      else (case format_rag_contexts_error rag_contexts_raw_dicts of
              Some err \<Rightarrow> Inl err
            | None \<Rightarrow> retry_loop env q rag_contexts_raw_dicts sid conversation_history
                        [0..<max_retries] None None None))"

text \<open>
  The run of the loop, attempt by attempt. \<open>locals_before\<close> gives \<open>raw_llm_output\<close> and
  \<open>json_string\<close> as they are when an attempt starts, if the loop gets there: unbound at
  the first attempt, then as the attempt before left them. \<open>attempt_handler\<close> is the
  exception an attempt ends in together with what its \<open>except\<close> clause does, or \<open>None\<close>
  when the attempt succeeds.
\<close>

fun locals_before ::
  "environment \<Rightarrow> pystr \<Rightarrow> rag_raw list \<Rightarrow> turn list \<Rightarrow> nat \<Rightarrow> pystr option \<times> pystr option" where
  "locals_before env q rags history 0 = (None, None)"
| "locals_before env q rags history (Suc attempt) =
     snd (try_body env q rags history attempt
            (fst (locals_before env q rags history attempt))
            (snd (locals_before env q rags history attempt)))"

definition attempt_handler ::
  "environment \<Rightarrow> pystr \<Rightarrow> rag_raw list \<Rightarrow> pystr option \<Rightarrow> turn list \<Rightarrow> nat \<Rightarrow>
   (llm_exception \<times> handler_action) option" where
  "attempt_handler env q rags sid history attempt =
     (case try_body env q rags history attempt
             (fst (locals_before env q rags history attempt))
             (snd (locals_before env q rags history attempt)) of
        (Inr llm_json_response, raw_llm_output, json_string) \<Rightarrow> None
      | (Inl e, raw_llm_output, json_string) \<Rightarrow>
          Some (e, except_clause sid e raw_llm_output json_string))"


section \<open>The search endpoint (\<open>api/routers/search.py\<close>)\<close>

text \<open>The \<open>HTTPException(status_code=500)\<close> that the handler raises for any exception.\<close>

datatype http_error = HTTP_500

text \<open>\<open>{p.product_id: p for p in product_catalog_list}\<close>: a later product replaces an earlier one.\<close>

definition product_catalog_dict :: "Product list \<Rightarrow> (pystr \<rightharpoonup> Product)" where
  "product_catalog_dict product_catalog_list =
     map_of (rev (map (\<lambda>p. (product_id p, p)) product_catalog_list))"

subsection \<open>Validation against the catalog\<close>

fun valid_results :: "(pystr \<rightharpoonup> Product) \<Rightarrow> ProductResult list \<Rightarrow> ProductResult list" where
  "valid_results dict [] = []"
| "valid_results dict (p_res_from_llm # rest) =
     (case dict (product_id (product p_res_from_llm)) of
        Some authoritative_product \<Rightarrow>
          \<lparr> product = authoritative_product,
            justification = justification p_res_from_llm,
            supporting_reviews = supporting_reviews p_res_from_llm \<rparr> # valid_results dict rest
      | None \<Rightarrow> valid_results dict rest)"

definition validate_results :: "(pystr \<rightharpoonup> Product) \<Rightarrow> SearchResponse \<Rightarrow> SearchResponse" where
  "validate_results dict llm_response =
     (if nonempty (results llm_response)
      then llm_response \<lparr> results := Some (valid_results dict (the_list (results llm_response))) \<rparr>
      else llm_response)"

subsection \<open>Re-ranking by margin\<close>

text \<open>
  \<open>list.sort(key=...)\<close> looks at the keys through \<open><\<close> alone. It is an insertion
  into a sorted prefix: every element goes behind the elements of the prefix that are
  not greater than it. \<open>ins_desc\<close> is one insertion, on the prefix held in reverse, the
  greatest key first. Where \<open><\<close> orders the keys this is the stable ascending sort; a
  list in which no key is \<open><\<close> the key before it is one run and stays as it is.
\<close>

fun ins_desc :: "('a \<Rightarrow> pyfloat) \<Rightarrow> 'a \<Rightarrow> 'a list \<Rightarrow> 'a list" where
  "ins_desc key x [] = [x]"
| "ins_desc key x (y # ys) =
     (if py_lt (key x) (key y) then y # ins_desc key x ys else x # y # ys)"

definition py_sort :: "('a \<Rightarrow> pyfloat) \<Rightarrow> 'a list \<Rightarrow> 'a list" where
  "py_sort key xs = rev (foldl (\<lambda>prefix x. ins_desc key x prefix) [] xs)"

text \<open>
  \<open>products_with_margin_percentage.sort(key=..., reverse=True)\<close>: the list is reversed,
  sorted and reversed again, so that equal keys keep their order.
\<close>

definition sort_by_margin_desc :: "ProductResult list \<Rightarrow> ProductResult list" where
  "sort_by_margin_desc rs =
     rev (py_sort (\<lambda>p_res. the (margin_percentage (product p_res))) (rev rs))"

definition rerank_by_margin :: "SearchResponse \<Rightarrow> SearchResponse" where
  "rerank_by_margin llm_response =
     (if nonempty (results llm_response)
      then (let products_with_margin_percentage =
                  filter (\<lambda>p_res. margin_percentage (product p_res) \<noteq> None) (the_list (results llm_response));
                products_without_margin_percentage =
                  filter (\<lambda>p_res. margin_percentage (product p_res) = None) (the_list (results llm_response))
            in if products_with_margin_percentage \<noteq> []
               then llm_response \<lparr> results :=
                      Some (sort_by_margin_desc products_with_margin_percentage
                            @ products_without_margin_percentage) \<rparr>
               else llm_response)
      else llm_response)"

subsection \<open>Evidence reconciliation\<close>

text \<open>The characters \<open>str.strip()\<close> removes: those for which \<open>str.isspace\<close> holds.\<close>

definition py_isspace :: "nat \<Rightarrow> bool" where
  "py_isspace c \<longleftrightarrow>
     (9 \<le> c \<and> c \<le> 13) \<or> (28 \<le> c \<and> c \<le> 32) \<or> c = 133 \<or> c = 160 \<or> c = 5760
     \<or> (8192 \<le> c \<and> c \<le> 8202) \<or> c = 8232 \<or> c = 8233 \<or> c = 8239 \<or> c = 8287 \<or> c = 12288"

definition py_strip :: "pystr \<Rightarrow> pystr" where
  "py_strip s = rev (dropWhile py_isspace (rev (dropWhile py_isspace s)))"

text \<open>\<open>s.count(sub)\<close>: the number of non-overlapping occurrences, scanning from the left.\<close>

function py_count :: "pystr \<Rightarrow> pystr \<Rightarrow> nat" where
  "py_count s sub =
     (if sub = [] then length s + 1
      else if length s < length sub then 0
      else if take (length sub) s = sub then 1 + py_count (drop (length sub) s) sub
      else py_count (tl s) sub)"
  by pat_completeness auto
termination
  by (relation "measure (\<lambda>(s, sub). length s)") (auto simp: neq_Nil_conv)

declare py_count.simps [simp del]

text \<open>
  The literal counted in a rating, as \<open>search.py\<close> has it: the three code points
  U+00E2, U+02DC, U+2026.
\<close>

definition STAR :: pystr where
  "STAR = [226, 732, 8230]"

text \<open>
  \<open>context_chunk.metadata.get("rating", "").strip()\<close>: a rating that is not a string has
  no \<open>strip\<close>, and the \<open>AttributeError\<close> ends the request.
\<close>

definition rating_str :: "DocumentChunk \<Rightarrow> http_error + pystr" where
  "rating_str context_chunk =
     (case metadata context_chunk (py ''rating'') of
        None \<Rightarrow> Inr (py_strip [])
      | Some (PStr s) \<Rightarrow> Inr (py_strip s)
      | Some _ \<Rightarrow> Inl HTTP_500)"

definition matches_product :: "(pystr \<Rightarrow> pystr) \<Rightarrow> Product \<Rightarrow> DocumentChunk \<Rightarrow> bool" where
  "matches_product lower p context_chunk =
     (let product_id_to_match = product_id p;
          product_name_to_match = (if product_name p \<noteq> [] then lower (product_name p) else []);
          metadata_product_id = metadata context_chunk (py ''product_id'');
          metadata_product_name_raw =
            (case metadata context_chunk (py ''product_name'') of None \<Rightarrow> PStr [] | Some v \<Rightarrow> v);
          metadata_product_name =
            (case metadata_product_name_raw of PStr s \<Rightarrow> lower s | _ \<Rightarrow> [])
      in if opt_truthy metadata_product_id \<and> metadata_product_id = Some (PStr product_id_to_match)
         then True
         else if \<not> opt_truthy metadata_product_id \<and> metadata_product_name \<noteq> []
                 \<and> metadata_product_name = product_name_to_match
         then True
         else False)"

text \<open>
  The inner loop \<open>for context_chunk in all_relevant_contexts_from_llm\<close> for one product:
  its supporting reviews, \<open>moved_review_chunk_ids\<close> and
  \<open>existing_review_ids_for_this_product\<close> are threaded through.
\<close>

fun contexts_loop ::
  "(pystr \<Rightarrow> pystr) \<Rightarrow> Product \<Rightarrow> DocumentChunk list \<Rightarrow> DocumentChunk list \<Rightarrow> pystr set \<Rightarrow> pystr set \<Rightarrow>
   http_error + (DocumentChunk list \<times> pystr set \<times> pystr set)" where
  "contexts_loop lower p [] revs moved existing = Inr (revs, moved, existing)"
| "contexts_loop lower p (context_chunk # rest) revs moved existing =
     (if chunk_id context_chunk \<in> moved then contexts_loop lower p rest revs moved existing
      else if chunk_id context_chunk \<in> existing then contexts_loop lower p rest revs moved existing
      else if source_type context_chunk = py ''review'' \<and> matches_product lower p context_chunk
      then (case rating_str context_chunk of
              Inl e \<Rightarrow> Inl e
            | Inr rating \<Rightarrow>
                if py_count rating STAR \<ge> 3
                then contexts_loop lower p rest (revs @ [context_chunk])
                       (insert (chunk_id context_chunk) moved)
                       (insert (chunk_id context_chunk) existing)
                else contexts_loop lower p rest revs moved existing)
      else contexts_loop lower p rest revs moved existing)"

text \<open>The outer loop \<open>for product_res in llm_response.results\<close>.\<close>

fun products_loop ::
  "(pystr \<Rightarrow> pystr) \<Rightarrow> DocumentChunk list \<Rightarrow> ProductResult list \<Rightarrow> pystr set \<Rightarrow>
   http_error + (ProductResult list \<times> pystr set)" where
  "products_loop lower contexts [] moved = Inr ([], moved)"
| "products_loop lower contexts (product_res # rest) moved =
     (case contexts_loop lower (product product_res) contexts (supporting_reviews product_res) moved
             (chunk_id ` set (supporting_reviews product_res)) of
        Inl e \<Rightarrow> Inl e
      | Inr (revs, moved', existing') \<Rightarrow>
          (case products_loop lower contexts rest moved' of
             Inl e \<Rightarrow> Inl e
           | Inr (rest', moved'') \<Rightarrow>
               Inr (product_res \<lparr> supporting_reviews := revs \<rparr> # rest', moved'')))"

definition reconcile_evidence :: "(pystr \<Rightarrow> pystr) \<Rightarrow> SearchResponse \<Rightarrow> http_error + SearchResponse" where
  "reconcile_evidence lower llm_response =
     (let all_relevant_contexts_from_llm = the_list (rag_contexts llm_response)
      in if nonempty (results llm_response)
         then (case products_loop lower all_relevant_contexts_from_llm
                      (the_list (results llm_response)) {} of
                 Inl e \<Rightarrow> Inl e
               | Inr (rs, moved_review_chunk_ids) \<Rightarrow>
                   Inr (llm_response \<lparr> results := Some rs,
                          rag_contexts := Some (filter (\<lambda>context_chunk.
                              chunk_id context_chunk \<notin> moved_review_chunk_ids)
                            all_relevant_contexts_from_llm) \<rparr>))
         else Inr (llm_response \<lparr> rag_contexts := Some (filter (\<lambda>context_chunk.
                              chunk_id context_chunk \<notin> {})
                            all_relevant_contexts_from_llm) \<rparr>))"

subsection \<open>Session history\<close>

fun py_join :: "pystr \<Rightarrow> pystr list \<Rightarrow> pystr" where
  "py_join sep [] = []"
| "py_join sep [x] = x"
| "py_join sep (x # y # rest) = x @ sep @ py_join sep (y # rest)"

fun the_str :: "pystr option \<Rightarrow> pystr" where
  "the_str None = []"
| "the_str (Some s) = s"

definition response_summary_for_history :: "SearchResponse \<Rightarrow> pystr" where
  "response_summary_for_history llm_response =
     (let response_parts =
            (if opt_str_truthy (answer llm_response) then [the_str (answer llm_response)] else [])
            @ (if opt_str_truthy (contextual_justification llm_response)
               then [the_str (contextual_justification llm_response)] else [])
            @ (if nonempty (follow_up_questions llm_response)
               then [py ''Follow-up questions: ''
                     @ py_join (py ''; '') (the_list (follow_up_questions llm_response))]
               else []);
          response_parts' = (if response_parts = [] then [py ''Okay.''] else response_parts)
      in py_strip (py_join (py '' '') response_parts'))"

definition MAX_HISTORY_TURNS :: nat where
  "MAX_HISTORY_TURNS = 10"

text \<open>
  \<open>_user_conversations\<close>: the process-wide dictionary from session id to turn list. A
  response's session id may be \<open>None\<close>, which is then a key like any other.
\<close>

type_synonym conversations = "pystr option \<rightharpoonup> turn list"

definition update_history :: "conversations \<Rightarrow> pystr \<Rightarrow> SearchResponse \<Rightarrow> conversations" where
  "update_history convs q llm_response =
     (let current_session_id_for_history = session_id llm_response;
          h0 = (case convs current_session_id_for_history of None \<Rightarrow> [] | Some h \<Rightarrow> h);
          h1 = h0 @ [\<lparr> role = py ''user'', parts = [q] \<rparr>];
          h2 = h1 @ [\<lparr> role = py ''model'', parts = [response_summary_for_history llm_response] \<rparr>];
          h3 = (if length h2 > MAX_HISTORY_TURNS * 2
                then drop (length h2 - MAX_HISTORY_TURNS * 2) h2 else h2)
      in convs (current_session_id_for_history \<mapsto> h3))"

subsection \<open>The request handler\<close>

text \<open>
  The handler returns the response or raises the HTTP error, and leaves the session store
  as the second component. An exception before the history update leaves the store as it
  was.
\<close>

definition product_catalog_list :: "environment \<Rightarrow> Product list" where
  "product_catalog_list env = (case catalog env of None \<Rightarrow> [] | Some ps \<Rightarrow> ps)"

definition history_for_llm :: "conversations \<Rightarrow> SearchQuery \<Rightarrow> turn list" where
  "history_for_llm convs search_query =
     (if opt_str_truthy (sq_session_id search_query)
      then (case convs (sq_session_id search_query) of None \<Rightarrow> [] | Some h \<Rightarrow> h)
      else [])"

definition conversational_search ::
  "environment \<Rightarrow> conversations \<Rightarrow> SearchQuery \<Rightarrow> (http_error + SearchResponse) \<times> conversations" where
  "conversational_search env convs search_query =
     (case vector_store env (query search_query) 10 of
        None \<Rightarrow> (Inl HTTP_500, convs)
      | Some rag_results \<Rightarrow>
          (case get_conversational_response env (query search_query) rag_results
                  (sq_session_id search_query) (history_for_llm convs search_query) of
             Inl err \<Rightarrow> (Inl HTTP_500, convs)
           | Inr llm_response \<Rightarrow>
               (case reconcile_evidence (str_lower env)
                       (rerank_by_margin
                          (validate_results (product_catalog_dict (product_catalog_list env))
                             llm_response)) of
                  Inl e \<Rightarrow> (Inl e, convs)
                | Inr resp \<Rightarrow> (Inr resp, update_history convs (query search_query) resp))))"

text \<open>
  The session store after a sequence of requests, each with its own collaborators,
  starting from the given store.
\<close>

fun serve :: "conversations \<Rightarrow> (environment \<times> SearchQuery) list \<Rightarrow> conversations" where
  "serve convs [] = convs"
| "serve convs ((env, search_query) # rest) =
     serve (snd (conversational_search env convs search_query)) rest"




text \<open>
  The conditions (b) and (c) of promotion as the handler tests them: a review that
  matches the product and has at least three stars.
\<close>

definition positive_review_for :: "(pystr \<Rightarrow> pystr) \<Rightarrow> Product \<Rightarrow> DocumentChunk \<Rightarrow> bool" where
  "positive_review_for lower p c =
     (source_type c = py ''review'' \<and> matches_product lower p c
      \<and> (case rating_str c of Inl e \<Rightarrow> False | Inr rating \<Rightarrow> py_count rating STAR \<ge> 3))"


text \<open>Whether hydration yields a chunk for an identifier the model cites.\<close>

definition hydratable :: "(pystr \<rightharpoonup> rag_raw) \<Rightarrow> pystr \<Rightarrow> bool" where
  "hydratable m cid = (case m cid of None \<Rightarrow> False | Some raw_dict \<Rightarrow> hydrate_context cid raw_dict \<noteq> None)"

section \<open>Example inputs\<close>

text \<open>
  Two documents for the chunker: one of 600 different characters, one of four. Then a
  small catalog, a retrieved batch of two chunks (a product-information chunk, then a
  four-star review that names its product), and collaborators whose model reply decodes
  to a given object.
\<close>

definition ex_long_document :: ParsedDocument where
  "ex_long_document =
     \<lparr> pd_id = py ''d1'', pd_source_type = py ''brand_info'', pd_content = [0..<600],
       pd_metadata = Map.empty \<rparr>"

definition ex_short_document :: ParsedDocument where
  "ex_short_document =
     \<lparr> pd_id = py ''d2'', pd_source_type = py ''review'', pd_content = py ''mild'',
       pd_metadata = Map.empty \<rparr>"

definition ascii_lower :: "pystr \<Rightarrow> pystr" where
  "ascii_lower s = map (\<lambda>c. if 65 \<le> c \<and> c \<le> 90 then c + 32 else c) s"

definition ex_product :: "pystr \<Rightarrow> pystr \<Rightarrow> pyfloat option \<Rightarrow> Product" where
  "ex_product pid name margin =
     \<lparr> product_id = pid, product_name = name, category = None, description = None,
       price_usd = None, currency_code = Some (py ''USD''), margin_percentage = margin,
       key_ingredients = Some [], tags = Some [], image_url = None \<rparr>"

definition ex_catalog :: "Product list" where
  "ex_catalog =
     [ex_product (py ''P001'') (py ''Bright C Serum'') (Some (Num 55)),
      ex_product (py ''P002'') (py ''Calm Cream'') (Some (Num 40))]"

definition ex_info_metadata :: pydict where
  "ex_info_metadata = Map.empty
     (py ''original_doc_id'' \<mapsto> PStr (py ''product_P001''),
      py ''source_type'' \<mapsto> PStr (py ''product_info''),
      py ''product_id'' \<mapsto> PStr (py ''P001''),
      py ''product_name'' \<mapsto> PStr (py ''Bright C Serum''))"

definition ex_info_raw :: rag_raw where
  "ex_info_raw =
     \<lparr> rr_id = py ''c2'',
       rr_text_chunk = Some (py ''Product Name: Bright C Serum''),
       rr_metadata = Some ex_info_metadata,
       rr_distance = Some (Num (1 / 8)) \<rparr>"

definition ex_review_metadata :: pydict where
  "ex_review_metadata = Map.empty
     (py ''original_doc_id'' \<mapsto> PStr (py ''review_txt_0''),
      py ''source_type'' \<mapsto> PStr (py ''review''),
      py ''product_name'' \<mapsto> PStr (py ''Bright C Serum''),
      py ''rating'' \<mapsto> PStr (STAR @ STAR @ STAR @ STAR))"

definition ex_review_raw :: rag_raw where
  "ex_review_raw =
     \<lparr> rr_id = py ''c1'',
       rr_text_chunk = Some (py ''Review for Bright C Serum by Ana: glow''),
       rr_metadata = Some ex_review_metadata,
       rr_distance = Some (Num (1 / 4)) \<rparr>"

text \<open>The two chunks as hydration rebuilds them.\<close>

definition ex_info_chunk :: DocumentChunk where
  "ex_info_chunk =
     \<lparr> chunk_id = py ''c2'', document_id = py ''product_P001'',
       text_chunk = py ''Product Name: Bright C Serum'', source_type = py ''product_info'',
       metadata = ex_info_metadata \<rparr>"

definition ex_review_chunk :: DocumentChunk where
  "ex_review_chunk =
     \<lparr> chunk_id = py ''c1'', document_id = py ''review_txt_0'',
       text_chunk = py ''Review for Bright C Serum by Ana: glow'', source_type = py ''review'',
       metadata = ex_review_metadata \<rparr>"

text \<open>A second review: its metadata names the serum but carries the product id of the cream.\<close>

definition ex_other_review_metadata :: pydict where
  "ex_other_review_metadata = Map.empty
     (py ''original_doc_id'' \<mapsto> PStr (py ''review_txt_1''),
      py ''source_type'' \<mapsto> PStr (py ''review''),
      py ''product_id'' \<mapsto> PStr (py ''P002''),
      py ''product_name'' \<mapsto> PStr (py ''Bright C Serum''),
      py ''rating'' \<mapsto> PStr (STAR @ STAR @ STAR @ STAR))"

definition ex_other_review_raw :: rag_raw where
  "ex_other_review_raw =
     \<lparr> rr_id = py ''c3'',
       rr_text_chunk = Some (py ''Review for Bright C Serum by Bo: nice''),
       rr_metadata = Some ex_other_review_metadata,
       rr_distance = Some (Num (1 / 2)) \<rparr>"

definition ex_other_review_chunk :: DocumentChunk where
  "ex_other_review_chunk =
     \<lparr> chunk_id = py ''c3'', document_id = py ''review_txt_1'',
       text_chunk = py ''Review for Bright C Serum by Bo: nice'', source_type = py ''review'',
       metadata = ex_other_review_metadata \<rparr>"

text \<open>The collaborators, with a given retrieval batch and a given decoding of the reply.\<close>

definition ex_env_on :: "rag_raw list \<Rightarrow> llm_exception + llm_json \<Rightarrow> environment" where
  "ex_env_on batch decoded =
     \<lparr> GOOGLE_API_KEY = Some (py ''key''),
       send_message = (\<lambda>q rags history attempt. ReplyText (py ''Here it is: {...} ok'')),
       json_decode = (\<lambda>json_string. decoded),
       uuid4 = py ''uuid-1'',
       vector_store = (\<lambda>q n_results. Some batch),
       catalog = Some ex_catalog,
       str_lower = ascii_lower \<rparr>"

definition ex_env :: "llm_exception + llm_json \<Rightarrow> environment" where
  "ex_env decoded = ex_env_on [ex_info_raw, ex_review_raw] decoded"

definition ex_query :: SearchQuery where
  "ex_query = \<lparr> query = py ''vitamin C serum'', sq_session_id = None \<rparr>"

definition ex_item :: "Product \<Rightarrow> pystr list \<Rightarrow> llm_result_json" where
  "ex_item p review_ids =
     \<lparr> lr_product = p, lr_justification = Some (py ''fits''), lr_supporting_reviews = [],
       lr_supporting_review_chunk_ids = review_ids \<rparr>"

definition ex_reply :: "llm_result_json list option \<Rightarrow> pystr list \<Rightarrow> llm_json" where
  "ex_reply items used_ids =
     \<lparr> lj_session_id = None, lj_results = items, lj_used_rag_context_ids = used_ids,
       lj_follow_up_questions = None, lj_answer = None,
       lj_contextual_justification = Some (py ''Here are some suggestions.'') \<rparr>"

text \<open>
  Replies of the model. The first asserts a product of the catalog under a wrong name and
  margin, and a product the catalog does not have.
\<close>

definition ex_reply_merge :: llm_json where
  "ex_reply_merge = ex_reply
     (Some [ex_item (ex_product (py ''P001'') (py ''Hallucinated Serum'') (Some (Num 99))) [],
            ex_item (ex_product (py ''P999'') (py ''Ghost'') None) []]) []"

text \<open>
  The second recommends the serum, cites the review as its supporting review and lists
  both chunks as used, as the prompt asks.
\<close>

definition ex_reply_overlap :: llm_json where
  "ex_reply_overlap = ex_reply
     (Some [ex_item (ex_product (py ''P001'') (py ''Bright C Serum'') None) [py ''c1'']])
     [py ''c2'', py ''c1'']"



text \<open>The fifth recommends nothing and lists the used chunks in an order of its own.\<close>

definition ex_reply_order :: llm_json where
  "ex_reply_order = ex_reply None [py ''c1'', py ''c2'']"




section \<open>Verification of the chunker\<close>

lemma py_eq_iff: "py a = py b \<longleftrightarrow> a = b"
  by (simp add: py_def inj_map_eq_map inj_def)

lemma py_Nil_iff: "py a = [] \<longleftrightarrow> a = []"
  by (simp add: py_def)

lemma chunk_document_unfold:
  "chunk_document uuids k d s =
     (if s < length (pd_content d)
      then make_chunk (uuids k) d s #
           (if length (pd_content d) \<le> s + 462 then [] else chunk_document uuids (Suc k) d (s + 462))
      else [])"
  by (subst chunk_document.simps) (simp add: TEXT_CHUNK_SIZE_def TEXT_CHUNK_OVERLAP_def)

lemma chunk_document_length:
  "length (chunk_document uuids k d s) = (length (pd_content d) - s + 461) div 462"
proof (induction uuids k d s rule: chunk_document.induct)
  case (1 uuids k p_doc start)
  let ?L = "length (pd_content p_doc)"
  show ?case
  proof (cases "start < ?L")
    case False
    then show ?thesis by (simp add: chunk_document_unfold [of uuids k p_doc start])
  next
    case True
    show ?thesis
    proof (cases "?L \<le> start + 462")
      case True
      with \<open>start < ?L\<close> have "(?L - start + 461) div 462 = 1" by simp
      with True \<open>start < ?L\<close> show ?thesis
        by (simp add: chunk_document_unfold [of uuids k p_doc start])
    next
      case False
      then have ih: "length (chunk_document uuids (Suc k) p_doc (start + 462)) = (?L - (start + 462) + 461) div 462"
        using 1 [of "start + 462"] \<open>start < ?L\<close>
        by (simp add: TEXT_CHUNK_SIZE_def TEXT_CHUNK_OVERLAP_def)
      from False have "(?L - start + 461) div 462 = Suc ((?L - (start + 462) + 461) div 462)" by simp
      with False \<open>start < ?L\<close> ih show ?thesis
        by (simp add: chunk_document_unfold [of uuids k p_doc start])
    qed
  qed
qed

lemma text_chunk_make_chunk:
  "text_chunk (make_chunk u d s) = take 512 (drop s (pd_content d))"
  by (simp add: make_chunk_def py_slice_def TEXT_CHUNK_SIZE_def)

lemma chunk_document_tail:
  "concat (map (\<lambda>c. drop 50 (text_chunk c)) (chunk_document uuids k d s)) = drop (s + 50) (pd_content d)"
proof (induction uuids k d s rule: chunk_document.induct)
  case (1 uuids k p_doc start)
  let ?t = "pd_content p_doc"
  let ?L = "length ?t"
  show ?case
  proof (cases "start < ?L")
    case False
    then show ?thesis by (simp add: chunk_document_unfold [of uuids k p_doc start])
  next
    case True
    have d1: "drop 462 (drop (start + 50) ?t) = drop (start + 512) ?t"
      by (simp only: drop_drop) (simp add: add.commute)
    have split: "take 462 (drop (start + 50) ?t) @ drop (start + 512) ?t = drop (start + 50) ?t"
      by (simp only: d1 [symmetric] append_take_drop_id)
    have d2: "drop 50 (drop start ?t) = drop (start + 50) ?t"
      by (simp only: drop_drop) (simp add: add.commute)
    have head: "drop 50 (text_chunk (make_chunk (uuids k) p_doc start)) = take 462 (drop (start + 50) ?t)"
      by (simp only: text_chunk_make_chunk drop_take d2) simp
    show ?thesis
    proof (cases "?L \<le> start + 462")
      case True
      then have "drop (start + 512) ?t = []" by simp
      with split have "take 462 (drop (start + 50) ?t) = drop (start + 50) ?t" by simp
      with True \<open>start < ?L\<close> head show ?thesis
        by (simp add: chunk_document_unfold [of uuids k p_doc start])
    next
      case False
      then have ih: "concat (map (\<lambda>c. drop 50 (text_chunk c)) (chunk_document uuids (Suc k) p_doc (start + 462))) = drop (start + 462 + 50) ?t"
        using 1 [of "start + 462"] \<open>start < ?L\<close>
        by (simp add: TEXT_CHUNK_SIZE_def TEXT_CHUNK_OVERLAP_def)
      have "start + 462 + 50 = start + 512" by simp
      with ih have ih': "concat (map (\<lambda>c. drop 50 (text_chunk c)) (chunk_document uuids (Suc k) p_doc (start + 462))) = drop (start + 512) ?t"
        by (simp only:)
      from False \<open>start < ?L\<close> show ?thesis
        by (simp only: chunk_document_unfold [of uuids k p_doc start] if_True if_False list.map concat.simps head ih' split)
    qed
  qed
qed

lemma chunk_document_nth:
  "i < length (chunk_document uuids k d s) \<Longrightarrow>
   chunk_document uuids k d s ! i = make_chunk (uuids (k + i)) d (s + 462 * i)"
proof (induction uuids k d s arbitrary: i rule: chunk_document.induct)
  case (1 uuids k p_doc start)
  let ?L = "length (pd_content p_doc)"
  note unf = chunk_document_unfold [of uuids k p_doc start]
  from "1.prems" have lt: "start < ?L"
    by (cases "start < ?L") (simp_all add: unf)
  show ?case
  proof (cases i)
    case 0
    with lt show ?thesis by (simp add: unf)
  next
    case (Suc j)
    from "1.prems" lt Suc have nl: "\<not> ?L \<le> start + 462"
      by (cases "?L \<le> start + 462") (simp_all add: unf)
    from "1.prems" lt Suc nl have jl: "j < length (chunk_document uuids (Suc k) p_doc (start + 462))"
      by (simp add: unf)
    from 1(1) [of "start + 462" j] lt nl jl
    have "chunk_document uuids (Suc k) p_doc (start + 462) ! j = make_chunk (uuids (Suc k + j)) p_doc (start + 462 + 462 * j)"
      by (simp add: TEXT_CHUNK_SIZE_def TEXT_CHUNK_OVERLAP_def)
    with Suc lt nl show ?thesis
      by (simp add: unf add.assoc)
  qed
qed

lemma ceil_div_462: "nat \<lceil>real L / 462\<rceil> = (L + 461) div 462"
proof -
  have "\<lceil>real_of_int (int L) / real_of_int 462\<rceil> = - (- int L div 462)"
    by (rule ceiling_divide_eq_div)
  then have "\<lceil>real L / 462\<rceil> = - (- int L div 462)" by simp
  moreover have "- (- int L div 462) = int ((L + 461) div 462)" by (simp add: zdiv_int)
  ultimately show ?thesis by simp
qed

lemma chunk_docs_from_length:
  "length (chunk_docs_from uuids k docs) = (\<Sum>d\<leftarrow>docs. (length (pd_content d) + 461) div 462)"
  by (induction docs arbitrary: k) (simp_all add: Let_def chunk_document_length)

lemma chunk_docs_from_filter:
  "chunk_docs_from uuids k (filter (\<lambda>d. pd_content d \<noteq> []) docs) = chunk_docs_from uuids k docs"
proof (induction docs arbitrary: k)
  case Nil
  show ?case by simp
next
  case (Cons d docs)
  show ?case
  proof (cases "pd_content d = []")
    case True
    then have "chunk_document uuids k d 0 = []" by (simp add: chunk_document_unfold [of uuids k d 0])
    with True Cons show ?thesis by simp
  next
    case False
    with Cons show ?thesis by (simp add: Let_def)
  qed
qed

text \<open>
  Claim C5, as the code has it: a document of length \<open>L\<close> yields
  \<open>ceil(L / (W - O))\<close> chunks, for every \<open>L\<close> (the window starts are
  \<open>0, W - O, 2 (W - O), ...\<close> below \<open>L\<close>), and the chunker's output has the sum of
  these counts. In particular exactly one chunk is produced when \<open>1 \<le> L \<le> W - O\<close>.
\<close>

theorem chunk_count:
  "length (chunk_document uuids k d 0) =
     nat \<lceil>real (length (pd_content d)) / (real TEXT_CHUNK_SIZE - real TEXT_CHUNK_OVERLAP)\<rceil>
   \<and> length (chunk_parsed_documents uuids docs) =
     (\<Sum>d\<leftarrow>docs. nat \<lceil>real (length (pd_content d)) / (real TEXT_CHUNK_SIZE - real TEXT_CHUNK_OVERLAP)\<rceil>)"
  by (simp add: TEXT_CHUNK_SIZE_def TEXT_CHUNK_OVERLAP_def ceil_div_462 chunk_document_length
      chunk_parsed_documents_def chunk_docs_from_length)

text \<open>
  The count stated in the specification fails: a document of 925 characters yields three
  chunks, not two, and a document of 500 characters (shorter than \<open>W\<close>) yields two.
\<close>

theorem chunk_count_counterexample:
  "length (chunk_parsed_documents (\<lambda>n. [n])
      [\<lparr>pd_id = py ''d1'', pd_source_type = py ''review'', pd_content = replicate 925 97, pd_metadata = Map.empty\<rparr>]) = 3
   \<and> spec_chunk_count 925 = 2
   \<and> length (chunk_parsed_documents (\<lambda>n. [n])
      [\<lparr>pd_id = py ''d2'', pd_source_type = py ''review'', pd_content = replicate 500 97, pd_metadata = Map.empty\<rparr>]) = 2
   \<and> spec_chunk_count 500 = 1"
  by (simp add: chunk_parsed_documents_def chunk_document_length spec_chunk_count_def
      TEXT_CHUNK_SIZE_def TEXT_CHUNK_OVERLAP_def)

lemma chunk_document_reconstruct:
  "remove_overlap (map text_chunk (chunk_document uuids k d 0)) = pd_content d"
proof -
  let ?t = "pd_content d"
  show ?thesis
  proof (cases "?t = []")
    case True
    then show ?thesis by (simp add: chunk_document_unfold [of uuids k d 0])
  next
    case False
    have tl: "concat (map (\<lambda>c. drop 50 (text_chunk c))
                 (if length ?t \<le> 462 then [] else chunk_document uuids (Suc k) d 462)) = drop 512 ?t"
      using chunk_document_tail [of uuids "Suc k" d 462] by simp
    from False have "remove_overlap (map text_chunk (chunk_document uuids k d 0)) =
        take 512 ?t @ concat (map (\<lambda>c. drop 50 (text_chunk c))
                 (if length ?t \<le> 462 then [] else chunk_document uuids (Suc k) d 462))"
      by (simp add: chunk_document_unfold [of uuids k d 0] text_chunk_make_chunk TEXT_CHUNK_OVERLAP_def comp_def)
    with tl show ?thesis by simp
  qed
qed

lemma chunk_document_slice:
  "j < length (chunk_document uuids k d 0) \<Longrightarrow>
   text_chunk (chunk_document uuids k d 0 ! j) =
     py_slice (pd_content d) (j * (TEXT_CHUNK_SIZE - TEXT_CHUNK_OVERLAP))
       (j * (TEXT_CHUNK_SIZE - TEXT_CHUNK_OVERLAP) + TEXT_CHUNK_SIZE)"
  by (simp add: chunk_document_nth make_chunk_def TEXT_CHUNK_SIZE_def TEXT_CHUNK_OVERLAP_def mult.commute)

lemma chunk_document_document_id:
  "c \<in> set (chunk_document uuids k d s) \<Longrightarrow> document_id c = pd_id d"
proof -
  assume "c \<in> set (chunk_document uuids k d s)"
  then obtain i where "i < length (chunk_document uuids k d s)" "chunk_document uuids k d s ! i = c"
    by (auto simp: in_set_conv_nth)
  with chunk_document_nth [of i uuids k d s] show ?thesis by (simp add: make_chunk_def)
qed

lemma chunk_docs_from_groups:
  "\<exists>groups. chunk_docs_from uuids k docs = concat groups \<and> length groups = length docs
     \<and> (\<forall>i < length docs. \<exists>k'. groups ! i = chunk_document uuids k' (docs ! i) 0)"
proof (induction docs arbitrary: k)
  case Nil
  show ?case by simp
next
  case (Cons d docs)
  let ?cs = "chunk_document uuids k d 0"
  from Cons [of "k + length ?cs"] obtain groups where g:
    "chunk_docs_from uuids (k + length ?cs) docs = concat groups" "length groups = length docs"
    "\<forall>i < length docs. \<exists>k'. groups ! i = chunk_document uuids k' (docs ! i) 0"
    by blast
  have 1: "chunk_docs_from uuids k (d # docs) = concat (?cs # groups)"
    using g(1) by (simp add: Let_def)
  have 2: "length (?cs # groups) = length (d # docs)" using g(2) by simp
  have 3: "\<forall>i < length (d # docs). \<exists>k'. (?cs # groups) ! i = chunk_document uuids k' ((d # docs) ! i) 0"
  proof (intro allI impI)
    fix i assume "i < length (d # docs)"
    then show "\<exists>k'. (?cs # groups) ! i = chunk_document uuids k' ((d # docs) ! i) 0"
      using g(3) by (cases i) auto
  qed
  from 1 2 3 show ?case by blast
qed

lemma chunk_docs_from_document_id:
  "c \<in> set (chunk_docs_from uuids k docs) \<Longrightarrow> document_id c \<in> pd_id ` set docs"
proof (induction docs arbitrary: k)
  case Nil
  then show ?case by simp
next
  case (Cons d docs)
  then show ?case
    by (auto simp: Let_def dest: chunk_document_document_id)
qed

lemma filter_all: "\<forall>x \<in> set xs. P x \<Longrightarrow> filter P xs = xs"
  by (induction xs) auto

lemma filter_none: "\<forall>x \<in> set xs. \<not> P x \<Longrightarrow> filter P xs = []"
  by (induction xs) auto

lemma chunk_docs_from_of_document:
  "distinct (map pd_id docs) \<Longrightarrow> d \<in> set docs \<Longrightarrow>
   \<exists>k'. filter (\<lambda>c. document_id c = pd_id d) (chunk_docs_from uuids k docs) = chunk_document uuids k' d 0"
proof (induction docs arbitrary: k)
  case Nil
  then show ?case by simp
next
  case (Cons p docs)
  let ?cs = "chunk_document uuids k p 0"
  let ?rest = "chunk_docs_from uuids (k + length ?cs) docs"
  have unf: "chunk_docs_from uuids k (p # docs) = ?cs @ ?rest" by (simp add: Let_def)
  show ?case
  proof (cases "pd_id d = pd_id p")
    case True
    with Cons.prems have dp: "d = p" by (auto simp: image_iff)
    have "\<forall>c \<in> set ?cs. document_id c = pd_id d"
      using dp by (auto dest: chunk_document_document_id)
    then have a: "filter (\<lambda>c. document_id c = pd_id d) ?cs = ?cs" by (rule filter_all)
    have "\<forall>c \<in> set ?rest. \<not> document_id c = pd_id d"
    proof
      fix c assume "c \<in> set ?rest"
      then have "document_id c \<in> pd_id ` set docs" by (rule chunk_docs_from_document_id)
      with Cons.prems(1) True show "\<not> document_id c = pd_id d" by auto
    qed
    then have b: "filter (\<lambda>c. document_id c = pd_id d) ?rest = []" by (rule filter_none)
    from a b dp show ?thesis by (simp only: unf filter_append append_Nil2) blast
  next
    case False
    with Cons.prems have din: "d \<in> set docs" and dist: "distinct (map pd_id docs)" by auto
    have "\<forall>c \<in> set ?cs. \<not> document_id c = pd_id d"
      using False by (auto dest: chunk_document_document_id)
    then have a: "filter (\<lambda>c. document_id c = pd_id d) ?cs = []" by (rule filter_none)
    from Cons.IH [OF dist din, of "k + length ?cs"] a show ?thesis
      by (simp only: unf filter_append append_Nil)
  qed
qed

text \<open>
  Claim C6: the output of \<open>chunk_parsed_documents\<close> is made of one group of chunks per
  document, in the order of the documents. The chunks of a group carry the id of their
  document; their texts, concatenated after the first \<open>O\<close> characters of every chunk but the
  first are removed, give back the content of the document; and the \<open>j\<close>-th text is the
  slice of the content at the window position \<open>j (W - O)\<close>. When the documents have
  different ids, the chunks produced for a document are those of the output with its id.
\<close>

theorem chunks_reconstruct:
  "(\<exists>groups. chunk_parsed_documents uuids docs = concat groups \<and> length groups = length docs
      \<and> (\<forall>i < length docs.
            (\<forall>c \<in> set (groups ! i). document_id c = pd_id (docs ! i))
            \<and> remove_overlap (map text_chunk (groups ! i)) = pd_content (docs ! i)
            \<and> (\<forall>j < length (groups ! i).
                  text_chunk (groups ! i ! j) =
                    py_slice (pd_content (docs ! i)) (j * (TEXT_CHUNK_SIZE - TEXT_CHUNK_OVERLAP))
                      (j * (TEXT_CHUNK_SIZE - TEXT_CHUNK_OVERLAP) + TEXT_CHUNK_SIZE))))
   \<and> (distinct (map pd_id docs) \<longrightarrow>
        (\<forall>d \<in> set docs.
           remove_overlap (map text_chunk
              (filter (\<lambda>c. document_id c = pd_id d) (chunk_parsed_documents uuids docs)))
             = pd_content d))"
proof (rule conjI)
  from chunk_docs_from_groups [of uuids 0 docs] obtain groups where g:
    "chunk_docs_from uuids 0 docs = concat groups" "length groups = length docs"
    "\<forall>i < length docs. \<exists>k'. groups ! i = chunk_document uuids k' (docs ! i) 0"
    by blast
  have "\<forall>i < length docs.
            (\<forall>c \<in> set (groups ! i). document_id c = pd_id (docs ! i))
            \<and> remove_overlap (map text_chunk (groups ! i)) = pd_content (docs ! i)
            \<and> (\<forall>j < length (groups ! i).
                  text_chunk (groups ! i ! j) =
                    py_slice (pd_content (docs ! i)) (j * (TEXT_CHUNK_SIZE - TEXT_CHUNK_OVERLAP))
                      (j * (TEXT_CHUNK_SIZE - TEXT_CHUNK_OVERLAP) + TEXT_CHUNK_SIZE))"
  proof (intro allI impI)
    fix i assume "i < length docs"
    with g(3) obtain k' where k': "groups ! i = chunk_document uuids k' (docs ! i) 0" by blast
    show "(\<forall>c \<in> set (groups ! i). document_id c = pd_id (docs ! i))
            \<and> remove_overlap (map text_chunk (groups ! i)) = pd_content (docs ! i)
            \<and> (\<forall>j < length (groups ! i).
                  text_chunk (groups ! i ! j) =
                    py_slice (pd_content (docs ! i)) (j * (TEXT_CHUNK_SIZE - TEXT_CHUNK_OVERLAP))
                      (j * (TEXT_CHUNK_SIZE - TEXT_CHUNK_OVERLAP) + TEXT_CHUNK_SIZE))"
      unfolding k'
      using chunk_document_document_id [of _ uuids k' "docs ! i" 0]
        chunk_document_reconstruct [of uuids k' "docs ! i"]
        chunk_document_slice [of _ uuids k' "docs ! i"]
      by blast
  qed
  with g(1,2) show "\<exists>groups. chunk_parsed_documents uuids docs = concat groups \<and> length groups = length docs
      \<and> (\<forall>i < length docs.
            (\<forall>c \<in> set (groups ! i). document_id c = pd_id (docs ! i))
            \<and> remove_overlap (map text_chunk (groups ! i)) = pd_content (docs ! i)
            \<and> (\<forall>j < length (groups ! i).
                  text_chunk (groups ! i ! j) =
                    py_slice (pd_content (docs ! i)) (j * (TEXT_CHUNK_SIZE - TEXT_CHUNK_OVERLAP))
                      (j * (TEXT_CHUNK_SIZE - TEXT_CHUNK_OVERLAP) + TEXT_CHUNK_SIZE)))"
    unfolding chunk_parsed_documents_def by blast
next
  show "distinct (map pd_id docs) \<longrightarrow>
        (\<forall>d \<in> set docs.
           remove_overlap (map text_chunk
              (filter (\<lambda>c. document_id c = pd_id d) (chunk_parsed_documents uuids docs)))
             = pd_content d)"
  proof (intro impI ballI)
    fix d assume "distinct (map pd_id docs)" "d \<in> set docs"
    from chunk_docs_from_of_document [OF this, of uuids 0] obtain k' where
      "filter (\<lambda>c. document_id c = pd_id d) (chunk_docs_from uuids 0 docs) = chunk_document uuids k' d 0"
      by blast
    then show "remove_overlap (map text_chunk
              (filter (\<lambda>c. document_id c = pd_id d) (chunk_parsed_documents uuids docs)))
             = pd_content d"
      by (simp only: chunk_parsed_documents_def chunk_document_reconstruct)
  qed
qed

text \<open>
  Two documents, the first of 600 different characters: it gives two chunks, the
  characters \<open>0\<close> to \<open>511\<close> and \<open>462\<close> to \<open>599\<close>, and the texts of the chunks with its id,
  the first 50 characters of the second one removed, are the 600 characters.
\<close>

theorem chunks_reconstruct_witness:
  "distinct (map pd_id [ex_long_document, ex_short_document])
   \<and> ex_long_document \<in> set [ex_long_document, ex_short_document]
   \<and> pd_content ex_long_document \<noteq> []
   \<and> map (\<lambda>c. (document_id c, text_chunk c))
       (chunk_parsed_documents (\<lambda>n. [n]) [ex_long_document, ex_short_document]) =
       [(py ''d1'', [0..<512]), (py ''d1'', [462..<600]), (py ''d2'', py ''mild'')]
   \<and> remove_overlap (map text_chunk
        (filter (\<lambda>c. document_id c = pd_id ex_long_document)
           (chunk_parsed_documents (\<lambda>n. [n]) [ex_long_document, ex_short_document])))
       = [0..<600]"
proof -
  have ids: "distinct (map pd_id [ex_long_document, ex_short_document])"
    by (simp add: ex_long_document_def ex_short_document_def py_eq_iff)
  have run: "map (\<lambda>c. (document_id c, text_chunk c))
       (chunk_parsed_documents (\<lambda>n. [n]) [ex_long_document, ex_short_document]) =
       [(py ''d1'', [0..<512]), (py ''d1'', [462..<600]), (py ''d2'', py ''mild'')]"
    by (simp add: chunk_parsed_documents_def Let_def chunk_document_unfold make_chunk_def
        py_slice_def TEXT_CHUNK_SIZE_def ex_long_document_def ex_short_document_def py_def
        del: upt_rec_numeral)
  from chunks_reconstruct [of "\<lambda>n. [n]" "[ex_long_document, ex_short_document]"] ids
  have "remove_overlap (map text_chunk
        (filter (\<lambda>c. document_id c = pd_id ex_long_document)
           (chunk_parsed_documents (\<lambda>n. [n]) [ex_long_document, ex_short_document])))
       = pd_content ex_long_document"
    by simp
  then have "remove_overlap (map text_chunk
        (filter (\<lambda>c. document_id c = pd_id ex_long_document)
           (chunk_parsed_documents (\<lambda>n. [n]) [ex_long_document, ex_short_document])))
       = [0..<600]"
    by (simp only: ex_long_document_def ParsedDocument.simps)
  with ids run show ?thesis by (simp add: ex_long_document_def del: upt_rec_numeral)
qed

text \<open>
  Claim C10: a document whose content is the empty string produces no chunk, so the
  chunker's output is that of the documents with non-empty content.
\<close>

theorem empty_content_no_chunks:
  "(pd_content d = [] \<longrightarrow> chunk_document uuids k d 0 = [])
   \<and> chunk_parsed_documents uuids docs =
       chunk_parsed_documents uuids (filter (\<lambda>d. pd_content d \<noteq> []) docs)"
  by (simp add: chunk_document_unfold [of uuids k d 0] chunk_parsed_documents_def chunk_docs_from_filter)

theorem empty_content_no_chunks_witness:
  "pd_content \<lparr>pd_id = py ''d1'', pd_source_type = py ''brand_info'', pd_content = [], pd_metadata = Map.empty\<rparr> = []
   \<and> chunk_document (\<lambda>n. [n]) 0
        \<lparr>pd_id = py ''d1'', pd_source_type = py ''brand_info'', pd_content = [], pd_metadata = Map.empty\<rparr> 0 = []"
  using empty_content_no_chunks [of "\<lparr>pd_id = py ''d1'', pd_source_type = py ''brand_info'', pd_content = [], pd_metadata = Map.empty\<rparr>" "\<lambda>n. [n]" 0 "[]"]
  by simp

section \<open>Verification of the generative-model call\<close>

lemma upt_max_retries: "[0..<max_retries] = [0, 1, 2]"
  by (simp add: max_retries_def upt_rec)

lemma try_body_fst:
  "fst (try_body env q rags history i raw js) = attempt_outcome env q rags history i"
  by (cases "send_message env q rags history i")
     (auto simp: attempt_outcome_def try_body_def Let_def)

lemma retry_loop_continue:
  assumes "attempt_handler env q rags sid history i = Some (e, Continue)"
  shows "retry_loop env q rags sid history (i # rest) lst
           (fst (locals_before env q rags history i)) (snd (locals_before env q rags history i)) =
         retry_loop env q rags sid history rest (Some e)
           (fst (locals_before env q rags history (Suc i))) (snd (locals_before env q rags history (Suc i)))"
proof -
  obtain out r j where t: "try_body env q rags history i
      (fst (locals_before env q rags history i)) (snd (locals_before env q rags history i)) = (out, r, j)"
    by (cases "try_body env q rags history i
      (fst (locals_before env q rags history i)) (snd (locals_before env q rags history i))") auto
  with assms have o: "out = Inl e" and c: "except_clause sid e r j = Continue"
    by (auto simp: attempt_handler_def split: sum.splits)
  from t have l: "locals_before env q rags history (Suc i) = (r, j)" by simp
  from t o c show ?thesis by (simp add: l)
qed

lemma attempt_handler_outcome:
  "attempt_handler env q rags sid history i = Some (e, a) \<Longrightarrow>
   attempt_outcome env q rags history i = Inl e"
proof -
  assume h: "attempt_handler env q rags sid history i = Some (e, a)"
  obtain out r j where t: "try_body env q rags history i
      (fst (locals_before env q rags history i)) (snd (locals_before env q rags history i)) = (out, r, j)"
    by (cases "try_body env q rags history i
      (fst (locals_before env q rags history i)) (snd (locals_before env q rags history i))") auto
  with h have "out = Inl e" by (auto simp: attempt_handler_def split: sum.splits)
  with t try_body_fst [of env q rags history i
      "fst (locals_before env q rags history i)" "snd (locals_before env q rags history i)"]
  show ?thesis by simp
qed

lemma retry_loop_exhausted:
  "retry_loop env q rags sid history [] (Some e) r j =
     Inr (degraded sid (fst (error_texts (Some e))) (snd (error_texts (Some e))))"
  by (simp split: prod.split)

lemma retries_exhausted_general:
  assumes key: "opt_str_truthy (GOOGLE_API_KEY env)"
    and fmt: "format_rag_contexts_error rags = None"
    and a0: "attempt_handler env q rags sid history 0 = Some (e0, Continue)"
    and a1: "attempt_handler env q rags sid history 1 = Some (e1, Continue)"
    and a2: "attempt_handler env q rags sid history 2 = Some (e2, Continue)"
  shows "get_conversational_response env q rags sid history =
           Inr (degraded sid (fst (error_texts (Some e2))) (snd (error_texts (Some e2))))"
proof -
  have n: "Suc 0 = 1" "Suc 1 = 2" by simp_all
  have l0: "fst (locals_before env q rags history 0) = None" "snd (locals_before env q rags history 0) = None"
    by simp_all
  from retry_loop_continue [OF a0, of "[1, 2]" None]
  have s0: "retry_loop env q rags sid history [0, 1, 2] None None None =
      retry_loop env q rags sid history [1, 2] (Some e0)
        (fst (locals_before env q rags history 1)) (snd (locals_before env q rags history 1))"
    by (simp only: l0 n)
  from retry_loop_continue [OF a1, of "[2]" "Some e0"]
  have s1: "retry_loop env q rags sid history [1, 2] (Some e0)
        (fst (locals_before env q rags history 1)) (snd (locals_before env q rags history 1)) =
      retry_loop env q rags sid history [2] (Some e1)
        (fst (locals_before env q rags history 2)) (snd (locals_before env q rags history 2))"
    by (simp only: n)
  from retry_loop_continue [OF a2, of "[]" "Some e1"]
  have s2: "retry_loop env q rags sid history [2] (Some e1)
        (fst (locals_before env q rags history 2)) (snd (locals_before env q rags history 2)) =
      retry_loop env q rags sid history [] (Some e2)
        (fst (locals_before env q rags history (Suc 2))) (snd (locals_before env q rags history (Suc 2)))" .
  have "retry_loop env q rags sid history [0, 1, 2] None None None =
      Inr (degraded sid (fst (error_texts (Some e2))) (snd (error_texts (Some e2))))"
    by (simp only: s0 s1 s2 retry_loop_exhausted)
  with key fmt show ?thesis
    by (simp add: get_conversational_response_def upt_max_retries)
qed

lemma raw_bound_after:
  "fst (locals_before env q rags history i) \<noteq> None
     \<or> (\<exists>raw. send_message env q rags history i = ReplyText raw) \<Longrightarrow>
   fst (locals_before env q rags history (Suc i)) \<noteq> None"
  by (cases "send_message env q rags history i") (auto simp: try_body_def Let_def)

lemma json_failure_handler:
  assumes "attempt_outcome env q rags history i = Inl JSONDecodeError"
    and "fst (locals_before env q rags history (Suc i)) \<noteq> None"
  shows "attempt_handler env q rags sid history i = Some (JSONDecodeError, Continue)"
proof -
  obtain out r j where t: "try_body env q rags history i
      (fst (locals_before env q rags history i)) (snd (locals_before env q rags history i)) = (out, r, j)"
    by (cases "try_body env q rags history i
      (fst (locals_before env q rags history i)) (snd (locals_before env q rags history i))") auto
  with try_body_fst [of env q rags history i
      "fst (locals_before env q rags history i)" "snd (locals_before env q rags history i)"] assms(1)
  have o: "out = Inl JSONDecodeError" by simp
  from t assms(2) have "r \<noteq> None" by simp
  with t o show ?thesis by (simp add: attempt_handler_def)
qed

text \<open>
  When the first attempt raises before \<open>raw_llm_output\<close> is assigned (in
  \<open>send_message_async\<close> or in \<open>response.text\<close>) an exception whose \<open>except\<close> clause logs
  that local or \<open>json_string\<close>, the clause raises \<open>UnboundLocalError\<close> and the function
  returns no response: the loop is left at its first attempt.
\<close>

lemma unbound_local_leaves:
  assumes "opt_str_truthy (GOOGLE_API_KEY env)" and "format_rag_contexts_error rags = None"
    and "send_message env q rags history 0 = SendRaises e"
    and "e = JSONDecodeError \<or> e = ValidationError \<or> (\<exists>msg. e = ValueError msg)"
  shows "get_conversational_response env q rags sid history = Inl UnboundLocalError"
  using assms
  by (auto simp: get_conversational_response_def upt_max_retries try_body_def)

text \<open>
  Claim C4. The API key is set and the retrieved contexts can be rendered into the prompt.
  When every attempt ends in a JSON-decode error, the first one on a reply that arrived as
  text, the response is the degraded one with the parse-error message and no results.
  More generally, when the retries are exhausted, that is every attempt ends in an
  exception and its \<open>except\<close> clause stores it and goes on, the response is the degraded
  one whose texts are those of \<open>error_texts\<close> for the exception of the last attempt; and
  the messages of the categories (parse, validation, rate limit, service, other API
  error, generic) are pairwise different.
\<close>

theorem retries_exhausted:
  "(opt_str_truthy (GOOGLE_API_KEY env) \<and> format_rag_contexts_error rags = None \<and>
    (\<exists>raw. send_message env q rags history 0 = ReplyText raw) \<and>
    (\<forall>i < max_retries. attempt_outcome env q rags history i = Inl JSONDecodeError)
    \<longrightarrow> get_conversational_response env q rags sid history =
          Inr \<lparr> session_id = sid, results = Some [], rag_contexts = Some [], follow_up_questions = Some [],
            answer = Some (py ''Sorry, I had trouble processing that. Could you try rephrasing?''),
            contextual_justification = Some (py ''LLM response parsing error after multiple attempts.'') \<rparr>)
   \<and> (opt_str_truthy (GOOGLE_API_KEY env) \<and> format_rag_contexts_error rags = None \<and>
      (\<forall>i < max_retries. \<exists>e. attempt_handler env q rags sid history i = Some (e, Continue))
    \<longrightarrow> (\<exists>last_exception. attempt_outcome env q rags history (max_retries - 1) = Inl last_exception
          \<and> get_conversational_response env q rags sid history =
            Inr \<lparr> session_id = sid, results = Some [], rag_contexts = Some [], follow_up_questions = Some [],
              answer = Some (fst (error_texts (Some last_exception))),
              contextual_justification = Some (snd (error_texts (Some last_exception))) \<rparr>))
   \<and> distinct [fst (error_texts (Some JSONDecodeError)), fst (error_texts (Some ValidationError)),
        fst (error_texts (Some ResourceExhausted)), fst (error_texts (Some ServiceUnavailable)),
        fst (error_texts (Some GoogleAPIError)), fst (error_texts (Some OtherException))]"
proof (intro conjI impI)
  assume h: "opt_str_truthy (GOOGLE_API_KEY env) \<and> format_rag_contexts_error rags = None \<and>
    (\<exists>raw. send_message env q rags history 0 = ReplyText raw) \<and>
    (\<forall>i < max_retries. attempt_outcome env q rags history i = Inl JSONDecodeError)"
  then have all: "\<And>i. i < 3 \<Longrightarrow> attempt_outcome env q rags history i = Inl JSONDecodeError"
    by (simp add: max_retries_def)
  from h have b1: "fst (locals_before env q rags history (Suc 0)) \<noteq> None"
    by (intro raw_bound_after) blast
  then have b2: "fst (locals_before env q rags history (Suc 1)) \<noteq> None"
    by (intro raw_bound_after) simp
  then have b3: "fst (locals_before env q rags history (Suc 2)) \<noteq> None"
    by (intro raw_bound_after) (simp add: numeral_2_eq_2)
  have a0: "attempt_handler env q rags sid history 0 = Some (JSONDecodeError, Continue)"
    using all [of 0] b1 by (intro json_failure_handler) simp_all
  have a1: "attempt_handler env q rags sid history 1 = Some (JSONDecodeError, Continue)"
    using all [of 1] b2 by (intro json_failure_handler) simp_all
  have a2: "attempt_handler env q rags sid history 2 = Some (JSONDecodeError, Continue)"
    using all [of 2] b3 by (intro json_failure_handler) simp_all
  from h have "get_conversational_response env q rags sid history =
           Inr (degraded sid (fst (error_texts (Some JSONDecodeError))) (snd (error_texts (Some JSONDecodeError))))"
    by (intro retries_exhausted_general [OF _ _ a0 a1 a2]) simp_all
  then show "get_conversational_response env q rags sid history =
          Inr \<lparr> session_id = sid, results = Some [], rag_contexts = Some [], follow_up_questions = Some [],
            answer = Some (py ''Sorry, I had trouble processing that. Could you try rephrasing?''),
            contextual_justification = Some (py ''LLM response parsing error after multiple attempts.'') \<rparr>"
    by (simp add: degraded_def)
next
  assume h: "opt_str_truthy (GOOGLE_API_KEY env) \<and> format_rag_contexts_error rags = None \<and>
      (\<forall>i < max_retries. \<exists>e. attempt_handler env q rags sid history i = Some (e, Continue))"
  then have all: "\<forall>i < 3. \<exists>e. attempt_handler env q rags sid history i = Some (e, Continue)"
    by (simp add: max_retries_def)
  have lt: "(0::nat) < 3" "(1::nat) < 3" "(2::nat) < 3" by simp_all
  from all lt(1) obtain e0 where e0: "attempt_handler env q rags sid history 0 = Some (e0, Continue)"
    by metis
  from all lt(2) obtain e1 where e1: "attempt_handler env q rags sid history 1 = Some (e1, Continue)"
    by metis
  from all lt(3) obtain e2 where e2: "attempt_handler env q rags sid history 2 = Some (e2, Continue)"
    by metis
  from h have "get_conversational_response env q rags sid history =
           Inr (degraded sid (fst (error_texts (Some e2))) (snd (error_texts (Some e2))))"
    by (intro retries_exhausted_general [OF _ _ e0 e1 e2]) simp_all
  with attempt_handler_outcome [OF e2]
  show "\<exists>last_exception. attempt_outcome env q rags history (max_retries - 1) = Inl last_exception
          \<and> get_conversational_response env q rags sid history =
            Inr \<lparr> session_id = sid, results = Some [], rag_contexts = Some [], follow_up_questions = Some [],
              answer = Some (fst (error_texts (Some last_exception))),
              contextual_justification = Some (snd (error_texts (Some last_exception))) \<rparr>"
    by (simp add: max_retries_def degraded_def)
next
  show "distinct [fst (error_texts (Some JSONDecodeError)), fst (error_texts (Some ValidationError)),
        fst (error_texts (Some ResourceExhausted)), fst (error_texts (Some ServiceUnavailable)),
        fst (error_texts (Some GoogleAPIError)), fst (error_texts (Some OtherException))]"
    by (simp add: py_def)
qed

section \<open>Verification of re-ranking and of the session store\<close>


lemma sort_by_margin_desc_foldr:
  "sort_by_margin_desc rs =
     foldr (ins_desc (\<lambda>p_res. the (margin_percentage (product p_res)))) rs []"
  by (simp add: sort_by_margin_desc_def py_sort_def foldl_conv_foldr)

lemma ins_desc_mset: "mset (ins_desc key x ys) = add_mset x (mset ys)"
  by (induction ys) auto


lemma sort_by_margin_desc_mset: "mset (sort_by_margin_desc rs) = mset rs"
  unfolding sort_by_margin_desc_foldr by (induction rs) (auto simp: ins_desc_mset)















lemma update_history_sound:
  "\<exists>h. update_history convs q resp (session_id resp) = Some h \<and> length h \<le> 2 * MAX_HISTORY_TURNS
     \<and> h = (let full = (case convs (session_id resp) of None \<Rightarrow> [] | Some h0 \<Rightarrow> h0)
                   @ [\<lparr> role = py ''user'', parts = [q] \<rparr>,
                      \<lparr> role = py ''model'', parts = [response_summary_for_history resp] \<rparr>]
            in drop (length full - 2 * MAX_HISTORY_TURNS) full)"
  by (simp add: update_history_def Let_def MAX_HISTORY_TURNS_def)

lemma update_history_other:
  "s \<noteq> session_id resp \<Longrightarrow> update_history convs q resp s = convs s"
  by (simp add: update_history_def Let_def)

lemma conversational_search_Inr:
  assumes "conversational_search env convs sq = (Inr resp, convs')"
  shows "convs' = update_history convs (query sq) resp"
  using assms
  by (auto simp: conversational_search_def Let_def split: option.splits sum.splits)

lemma conversational_search_Inl:
  assumes "conversational_search env convs sq = (Inl e, convs')"
  shows "convs' = convs"
  using assms
  by (auto simp: conversational_search_def Let_def split: option.splits sum.splits)

lemma update_history_bound:
  assumes "\<forall>s h. convs s = Some h \<longrightarrow> length h \<le> 2 * MAX_HISTORY_TURNS"
    and "update_history convs q resp s = Some h"
  shows "length h \<le> 2 * MAX_HISTORY_TURNS"
proof (cases "s = session_id resp")
  case True
  with update_history_sound [of convs q resp] assms(2) show ?thesis by auto
next
  case False
  with update_history_other [of s resp convs q] assms show ?thesis by auto
qed

lemma conversational_search_bound:
  assumes "\<forall>s h. convs s = Some h \<longrightarrow> length h \<le> 2 * MAX_HISTORY_TURNS"
    and "snd (conversational_search env convs sq) s = Some h"
  shows "length h \<le> 2 * MAX_HISTORY_TURNS"
proof (cases "conversational_search env convs sq")
  case (Pair out convs')
  show ?thesis
  proof (cases out)
    case (Inl e)
    with Pair have "convs' = convs" by (auto dest: conversational_search_Inl)
    with Pair assms show ?thesis by auto
  next
    case (Inr resp)
    with Pair have "convs' = update_history convs (query sq) resp"
      by (auto dest: conversational_search_Inr)
    with Pair assms update_history_bound [of convs "query sq" resp s h] show ?thesis by auto
  qed
qed

lemma serve_bound:
  "\<forall>s h. convs s = Some h \<longrightarrow> length h \<le> 2 * MAX_HISTORY_TURNS \<Longrightarrow>
   serve convs reqs s = Some h \<Longrightarrow> length h \<le> 2 * MAX_HISTORY_TURNS"
proof (induction reqs arbitrary: convs)
  case Nil
  then show ?case by simp
next
  case (Cons req reqs)
  obtain env sq where req: "req = (env, sq)" by (cases req)
  have "\<forall>s h. snd (conversational_search env convs sq) s = Some h \<longrightarrow> length h \<le> 2 * MAX_HISTORY_TURNS"
    using conversational_search_bound [of convs env sq] Cons.prems(1) by blast
  from Cons.IH [OF this] Cons.prems(2) req show ?case by simp
qed

text \<open>
  Claim C9: a completed request stores, for the session of its response, the old history
  followed by the user turn and the model turn, cut to its last \<open>2 * 10\<close> entries; no other
  session changes, so a store in which every history has at most 20 entries stays so, and
  after any sequence of requests from the empty store every history has at most 20 entries.
\<close>

theorem session_bound:
  "(conversational_search env convs search_query = (Inr resp, convs') \<longrightarrow>
     (\<exists>h. convs' (session_id resp) = Some h \<and> length h \<le> 2 * MAX_HISTORY_TURNS
        \<and> h = (let full = (case convs (session_id resp) of None \<Rightarrow> [] | Some h0 \<Rightarrow> h0)
                   @ [\<lparr> role = py ''user'', parts = [query search_query] \<rparr>,
                      \<lparr> role = py ''model'', parts = [response_summary_for_history resp] \<rparr>]
               in drop (length full - 2 * MAX_HISTORY_TURNS) full))
     \<and> (\<forall>s. s \<noteq> session_id resp \<longrightarrow> convs' s = convs s)
     \<and> ((\<forall>s h. convs s = Some h \<longrightarrow> length h \<le> 2 * MAX_HISTORY_TURNS)
          \<longrightarrow> (\<forall>s h. convs' s = Some h \<longrightarrow> length h \<le> 2 * MAX_HISTORY_TURNS)))
   \<and> (\<forall>s h. serve Map.empty reqs s = Some h \<longrightarrow> length h \<le> 2 * MAX_HISTORY_TURNS)"
proof (rule conjI)
  show "\<forall>s h. serve Map.empty reqs s = Some h \<longrightarrow> length h \<le> 2 * MAX_HISTORY_TURNS"
  proof (intro allI impI)
    fix s h assume "serve Map.empty reqs s = Some h"
    with serve_bound [of Map.empty reqs s h] show "length h \<le> 2 * MAX_HISTORY_TURNS" by simp
  qed
next
  show "conversational_search env convs search_query = (Inr resp, convs') \<longrightarrow>
     (\<exists>h. convs' (session_id resp) = Some h \<and> length h \<le> 2 * MAX_HISTORY_TURNS
        \<and> h = (let full = (case convs (session_id resp) of None \<Rightarrow> [] | Some h0 \<Rightarrow> h0)
                   @ [\<lparr> role = py ''user'', parts = [query search_query] \<rparr>,
                      \<lparr> role = py ''model'', parts = [response_summary_for_history resp] \<rparr>]
               in drop (length full - 2 * MAX_HISTORY_TURNS) full))
     \<and> (\<forall>s. s \<noteq> session_id resp \<longrightarrow> convs' s = convs s)
     \<and> ((\<forall>s h. convs s = Some h \<longrightarrow> length h \<le> 2 * MAX_HISTORY_TURNS)
          \<longrightarrow> (\<forall>s h. convs' s = Some h \<longrightarrow> length h \<le> 2 * MAX_HISTORY_TURNS))"
  proof
  assume a: "conversational_search env convs search_query = (Inr resp, convs')"
  then have c: "convs' = update_history convs (query search_query) resp"
    by (rule conversational_search_Inr)
  have 1: "\<exists>h. convs' (session_id resp) = Some h \<and> length h \<le> 2 * MAX_HISTORY_TURNS
        \<and> h = (let full = (case convs (session_id resp) of None \<Rightarrow> [] | Some h0 \<Rightarrow> h0)
                   @ [\<lparr> role = py ''user'', parts = [query search_query] \<rparr>,
                      \<lparr> role = py ''model'', parts = [response_summary_for_history resp] \<rparr>]
               in drop (length full - 2 * MAX_HISTORY_TURNS) full)"
    unfolding c by (rule update_history_sound)
  have 2: "\<forall>s. s \<noteq> session_id resp \<longrightarrow> convs' s = convs s"
    unfolding c by (simp add: update_history_other)
  have 3: "(\<forall>s h. convs s = Some h \<longrightarrow> length h \<le> 2 * MAX_HISTORY_TURNS)
          \<longrightarrow> (\<forall>s h. convs' s = Some h \<longrightarrow> length h \<le> 2 * MAX_HISTORY_TURNS)"
  proof (intro impI allI)
    fix s h
    assume inv: "\<forall>s h. convs s = Some h \<longrightarrow> length h \<le> 2 * MAX_HISTORY_TURNS"
      and s: "convs' s = Some h"
    show "length h \<le> 2 * MAX_HISTORY_TURNS"
    proof (cases "s = session_id resp")
      case True
      with 1 s show ?thesis by auto
    next
      case False
      with 2 s inv show ?thesis by auto
    qed
  qed
  from 1 2 3 show "(\<exists>h. convs' (session_id resp) = Some h \<and> length h \<le> 2 * MAX_HISTORY_TURNS
        \<and> h = (let full = (case convs (session_id resp) of None \<Rightarrow> [] | Some h0 \<Rightarrow> h0)
                   @ [\<lparr> role = py ''user'', parts = [query search_query] \<rparr>,
                      \<lparr> role = py ''model'', parts = [response_summary_for_history resp] \<rparr>]
               in drop (length full - 2 * MAX_HISTORY_TURNS) full))
     \<and> (\<forall>s. s \<noteq> session_id resp \<longrightarrow> convs' s = convs s)
     \<and> ((\<forall>s h. convs s = Some h \<longrightarrow> length h \<le> 2 * MAX_HISTORY_TURNS)
          \<longrightarrow> (\<forall>s h. convs' s = Some h \<longrightarrow> length h \<le> 2 * MAX_HISTORY_TURNS))"
    by blast
  qed
qed

section \<open>Verification of the catalog merge\<close>

lemma product_catalog_dict_id:
  "product_catalog_dict ps k = Some p \<Longrightarrow> product_id p = k"
  by (auto simp: product_catalog_dict_def dest!: map_of_SomeD)

lemma valid_results_authoritative:
  "r \<in> set (valid_results (product_catalog_dict ps) rs) \<Longrightarrow>
   product_catalog_dict ps (product_id (product r)) = Some (product r)"
proof (induction rs)
  case Nil
  then show ?case by simp
next
  case (Cons a rs)
  show ?case
  proof (cases "product_catalog_dict ps (product_id (product a))")
    case None
    with Cons show ?thesis by simp
  next
    case (Some x)
    then have "product_id x = product_id (product a)" by (rule product_catalog_dict_id)
    with Some Cons show ?thesis by auto
  qed
qed

lemma valid_results_ids:
  "map (\<lambda>r. product_id (product r)) (valid_results (product_catalog_dict ps) rs) =
   filter (\<lambda>i. i \<in> dom (product_catalog_dict ps)) (map (\<lambda>r. product_id (product r)) rs)"
proof (induction rs)
  case Nil
  then show ?case by simp
next
  case (Cons a rs)
  show ?case
  proof (cases "product_catalog_dict ps (product_id (product a))")
    case None
    with Cons show ?thesis by (simp add: domIff)
  next
    case (Some x)
    then have "product_id x = product_id (product a)" by (rule product_catalog_dict_id)
    with Some Cons show ?thesis by (simp add: domIff)
  qed
qed

lemma validate_results_list:
  "the_list (results (validate_results dict r)) = valid_results dict (the_list (results r))"
  by (cases "results r") (auto simp: validate_results_def)

lemma rerank_mset:
  "mset (the_list (results (rerank_by_margin r))) = mset (the_list (results r))"
proof -
  let ?rs = "the_list (results r)"
  have "mset (filter (\<lambda>p_res. margin_percentage (product p_res) \<noteq> None) ?rs)
        + mset (filter (\<lambda>p_res. margin_percentage (product p_res) = None) ?rs) = mset ?rs"
    by (induction ?rs) auto
  then show ?thesis
    by (auto simp: rerank_by_margin_def Let_def sort_by_margin_desc_mset)
qed

lemma contexts_loop_append:
  "contexts_loop lower p cs revs moved existing = Inr (revs', moved', existing') \<Longrightarrow>
   \<exists>promoted. revs' = revs @ promoted \<and> moved' = moved \<union> chunk_id ` set promoted
      \<and> existing' = existing \<union> chunk_id ` set promoted"
proof (induction cs arbitrary: revs moved existing)
  case Nil
  then show ?case by simp
next
  case (Cons c cs)
  show ?case
  proof (cases "chunk_id c \<notin> moved \<and> chunk_id c \<notin> existing \<and> source_type c = py ''review''
                \<and> matches_product lower p c \<and> (\<exists>rating. rating_str c = Inr rating \<and> 3 \<le> py_count rating STAR)")
    case True
    then obtain rating where r: "rating_str c = Inr rating" "3 \<le> py_count rating STAR" by blast
    with True Cons.prems have
      "contexts_loop lower p cs (revs @ [c]) (insert (chunk_id c) moved) (insert (chunk_id c) existing)
         = Inr (revs', moved', existing')"
      by simp
    from Cons.IH [OF this] obtain promoted where
      "revs' = (revs @ [c]) @ promoted" "moved' = insert (chunk_id c) moved \<union> chunk_id ` set promoted"
      "existing' = insert (chunk_id c) existing \<union> chunk_id ` set promoted" by blast
    then have "revs' = revs @ (c # promoted) \<and> moved' = moved \<union> chunk_id ` set (c # promoted)
      \<and> existing' = existing \<union> chunk_id ` set (c # promoted)" by auto
    then show ?thesis by blast
  next
    case False
    with Cons.prems have "contexts_loop lower p cs revs moved existing = Inr (revs', moved', existing')"
      by (auto split: if_splits sum.splits)
    from Cons.IH [OF this] show ?thesis .
  qed
qed

lemma products_loop_products:
  "products_loop lower cs rs moved = Inr (rs', moved') \<Longrightarrow>
   map product rs' = map product rs"
proof (induction rs arbitrary: moved rs' moved')
  case Nil
  then show ?case by simp
next
  case (Cons a rs)
  then show ?case
    by (auto split: sum.splits prod.splits)
qed

lemma reconcile_products:
  "reconcile_evidence lower r = Inr r' \<Longrightarrow>
   map product (the_list (results r')) = map product (the_list (results r))"
  by (auto simp: reconcile_evidence_def Let_def split: if_splits sum.splits prod.splits
      dest: products_loop_products)

lemma conversational_search_stages:
  assumes "conversational_search env convs sq = (Inr resp, convs')"
  shows "\<exists>rags llm_response. vector_store env (query sq) 10 = Some rags
     \<and> get_conversational_response env (query sq) rags (sq_session_id sq) (history_for_llm convs sq)
         = Inr llm_response
     \<and> reconcile_evidence (str_lower env)
         (rerank_by_margin (validate_results (product_catalog_dict (product_catalog_list env))
            llm_response))
       = Inr resp"
  using assms
  by (auto simp: conversational_search_def Let_def split: option.splits sum.splits)

text \<open>
  Claim C1: in the response of a completed request, the product of every result is the
  catalog record stored under its product id, and the product ids of the results are
  those the model asserted that are in the catalog (as multisets).
\<close>

theorem catalog_merge:
  "conversational_search env convs search_query = (Inr resp, convs') \<longrightarrow>
     (\<forall>r \<in> set (the_list (results resp)).
        product_catalog_dict (product_catalog_list env) (product_id (product r)) = Some (product r))
     \<and> (\<exists>rag_results llm_response. vector_store env (query search_query) 10 = Some rag_results
          \<and> get_conversational_response env (query search_query) rag_results
                (sq_session_id search_query) (history_for_llm convs search_query) = Inr llm_response
          \<and> mset (map (\<lambda>r. product_id (product r)) (the_list (results resp))) =
            mset (filter (\<lambda>i. i \<in> dom (product_catalog_dict (product_catalog_list env)))
                   (map (\<lambda>r. product_id (product r)) (the_list (results llm_response)))))"
proof
  assume a: "conversational_search env convs search_query = (Inr resp, convs')"
  let ?dict = "product_catalog_dict (product_catalog_list env)"
  from conversational_search_stages [OF a] obtain rags llm where
    v: "vector_store env (query search_query) 10 = Some rags" and
    g: "get_conversational_response env (query search_query) rags (sq_session_id search_query)
               (history_for_llm convs search_query) = Inr llm" and
    rec: "reconcile_evidence (str_lower env) (rerank_by_margin (validate_results ?dict llm)) = Inr resp"
    by blast
  let ?val = "validate_results ?dict llm"
  have ps: "map product (the_list (results resp)) = map product (the_list (results (rerank_by_margin ?val)))"
    using rec by (rule reconcile_products)
  have ms: "mset (the_list (results (rerank_by_margin ?val))) = mset (valid_results ?dict (the_list (results llm)))"
    by (simp add: rerank_mset validate_results_list)
  have 1: "\<forall>r \<in> set (the_list (results resp)). ?dict (product_id (product r)) = Some (product r)"
  proof
    fix r assume "r \<in> set (the_list (results resp))"
    then have "product r \<in> set (map product (the_list (results resp)))" by simp
    with ps have "product r \<in> product ` set (the_list (results (rerank_by_margin ?val)))" by simp
    then obtain r' where r': "r' \<in> set (the_list (results (rerank_by_margin ?val)))" "product r' = product r"
      by auto
    from r'(1) ms have "r' \<in> set (valid_results ?dict (the_list (results llm)))"
      by (metis set_mset_mset)
    from valid_results_authoritative [OF this] r'(2)
    show "?dict (product_id (product r)) = Some (product r)" by simp
  qed
  have "map (\<lambda>r. product_id (product r)) (the_list (results resp)) =
        map product_id (map product (the_list (results resp)))" by simp
  also have "\<dots> = map (\<lambda>r. product_id (product r)) (the_list (results (rerank_by_margin ?val)))"
    by (simp add: ps)
  finally have "mset (map (\<lambda>r. product_id (product r)) (the_list (results resp))) =
      image_mset (\<lambda>r. product_id (product r)) (mset (the_list (results (rerank_by_margin ?val))))"
    by simp
  also have "\<dots> = mset (map (\<lambda>r. product_id (product r)) (valid_results ?dict (the_list (results llm))))"
    by (simp add: ms)
  finally have 2: "mset (map (\<lambda>r. product_id (product r)) (the_list (results resp))) =
      mset (filter (\<lambda>i. i \<in> dom ?dict) (map (\<lambda>r. product_id (product r)) (the_list (results llm))))"
    by (simp add: valid_results_ids)
  from 1 2 v g show "(\<forall>r \<in> set (the_list (results resp)).
        ?dict (product_id (product r)) = Some (product r))
     \<and> (\<exists>rag_results llm_response. vector_store env (query search_query) 10 = Some rag_results
          \<and> get_conversational_response env (query search_query) rag_results
                (sq_session_id search_query) (history_for_llm convs search_query) = Inr llm_response
          \<and> mset (map (\<lambda>r. product_id (product r)) (the_list (results resp))) =
            mset (filter (\<lambda>i. i \<in> dom ?dict)
                   (map (\<lambda>r. product_id (product r)) (the_list (results llm_response)))))"
    by blast
qed

section \<open>Verification of evidence reconciliation\<close>

lemma contexts_loop_skip:
  "\<not> (positive_review_for lower p c \<and> chunk_id c \<notin> moved \<and> chunk_id c \<notin> existing) \<Longrightarrow>
   contexts_loop lower p (c # cs) revs moved existing = Inr res \<Longrightarrow>
   contexts_loop lower p cs revs moved existing = Inr res"
  by (auto simp: positive_review_for_def split: if_splits sum.splits)

lemma contexts_loop_promote:
  "positive_review_for lower p c \<Longrightarrow> chunk_id c \<notin> moved \<Longrightarrow> chunk_id c \<notin> existing \<Longrightarrow>
   contexts_loop lower p (c # cs) revs moved existing =
   contexts_loop lower p cs (revs @ [c]) (insert (chunk_id c) moved) (insert (chunk_id c) existing)"
  by (auto simp: positive_review_for_def split: if_splits sum.splits)

lemma contexts_loop_char:
  "contexts_loop lower p cs revs moved existing = Inr (revs', moved', existing') \<Longrightarrow>
   \<exists>promoted. revs' = revs @ promoted
      \<and> moved' = moved \<union> chunk_id ` set promoted
      \<and> existing' = existing \<union> chunk_id ` set promoted
      \<and> distinct (map chunk_id promoted)
      \<and> set promoted \<subseteq> {c \<in> set cs. positive_review_for lower p c
                               \<and> chunk_id c \<notin> moved \<and> chunk_id c \<notin> existing}
      \<and> chunk_id ` {c \<in> set cs. positive_review_for lower p c
                               \<and> chunk_id c \<notin> moved \<and> chunk_id c \<notin> existing}
          \<subseteq> chunk_id ` set promoted"
proof (induction cs arbitrary: revs moved existing)
  case Nil
  then show ?case by simp
next
  case (Cons c cs)
  show ?case
  proof (cases "positive_review_for lower p c \<and> chunk_id c \<notin> moved \<and> chunk_id c \<notin> existing")
    case True
    with Cons.prems have
      "contexts_loop lower p cs (revs @ [c]) (insert (chunk_id c) moved) (insert (chunk_id c) existing)
         = Inr (revs', moved', existing')"
      by (simp add: contexts_loop_promote del: contexts_loop.simps)
    from Cons.IH [OF this] obtain promoted where p:
      "revs' = (revs @ [c]) @ promoted"
      "moved' = insert (chunk_id c) moved \<union> chunk_id ` set promoted"
      "existing' = insert (chunk_id c) existing \<union> chunk_id ` set promoted"
      "distinct (map chunk_id promoted)"
      "set promoted \<subseteq> {c' \<in> set cs. positive_review_for lower p c'
           \<and> chunk_id c' \<notin> insert (chunk_id c) moved \<and> chunk_id c' \<notin> insert (chunk_id c) existing}"
      "chunk_id ` {c' \<in> set cs. positive_review_for lower p c'
           \<and> chunk_id c' \<notin> insert (chunk_id c) moved \<and> chunk_id c' \<notin> insert (chunk_id c) existing}
          \<subseteq> chunk_id ` set promoted"
      by blast
    have 1: "revs' = revs @ (c # promoted)" using p(1) by simp
    have 2: "moved' = moved \<union> chunk_id ` set (c # promoted)" using p(2) by auto
    have 3: "existing' = existing \<union> chunk_id ` set (c # promoted)" using p(3) by auto
    have 4: "distinct (map chunk_id (c # promoted))" using p(4) p(5) by auto
    have 5: "set (c # promoted) \<subseteq> {c' \<in> set (c # cs). positive_review_for lower p c'
                               \<and> chunk_id c' \<notin> moved \<and> chunk_id c' \<notin> existing}"
      using p(5) True by auto
    have 6: "chunk_id ` {c' \<in> set (c # cs). positive_review_for lower p c'
                               \<and> chunk_id c' \<notin> moved \<and> chunk_id c' \<notin> existing}
          \<subseteq> chunk_id ` set (c # promoted)"
    proof
      fix i assume "i \<in> chunk_id ` {c' \<in> set (c # cs). positive_review_for lower p c'
                               \<and> chunk_id c' \<notin> moved \<and> chunk_id c' \<notin> existing}"
      then obtain c' where c': "c' \<in> set (c # cs)" "positive_review_for lower p c'"
        "chunk_id c' \<notin> moved" "chunk_id c' \<notin> existing" "i = chunk_id c'" by auto
      show "i \<in> chunk_id ` set (c # promoted)"
      proof (cases "chunk_id c' = chunk_id c")
        case True
        with c'(5) show ?thesis by simp
      next
        case False
        with c' have "c' \<in> set cs" by auto
        with c' False have "chunk_id c' \<in> chunk_id ` {c' \<in> set cs. positive_review_for lower p c'
           \<and> chunk_id c' \<notin> insert (chunk_id c) moved \<and> chunk_id c' \<notin> insert (chunk_id c) existing}"
          by auto
        with p(6) c'(5) show ?thesis by auto
      qed
    qed
    from 1 2 3 4 5 6 show ?thesis by blast
  next
    case False
    from contexts_loop_skip [OF False Cons.prems]
    have "contexts_loop lower p cs revs moved existing = Inr (revs', moved', existing')" .
    from Cons.IH [OF this] obtain promoted where p:
      "revs' = revs @ promoted"
      "moved' = moved \<union> chunk_id ` set promoted"
      "existing' = existing \<union> chunk_id ` set promoted"
      "distinct (map chunk_id promoted)"
      "set promoted \<subseteq> {c' \<in> set cs. positive_review_for lower p c'
           \<and> chunk_id c' \<notin> moved \<and> chunk_id c' \<notin> existing}"
      "chunk_id ` {c' \<in> set cs. positive_review_for lower p c'
           \<and> chunk_id c' \<notin> moved \<and> chunk_id c' \<notin> existing}
          \<subseteq> chunk_id ` set promoted"
      by blast
    have 5: "set promoted \<subseteq> {c' \<in> set (c # cs). positive_review_for lower p c'
           \<and> chunk_id c' \<notin> moved \<and> chunk_id c' \<notin> existing}"
      using p(5) by auto
    have 6: "chunk_id ` {c' \<in> set (c # cs). positive_review_for lower p c'
           \<and> chunk_id c' \<notin> moved \<and> chunk_id c' \<notin> existing}
          \<subseteq> chunk_id ` set promoted"
      using p(6) False by auto
    from p(1-4) 5 6 show ?thesis by blast
  qed
qed

lemma products_loop_char:
  "products_loop lower cs rs moved = Inr (rs', moved') \<Longrightarrow>
   length rs' = length rs \<and> moved \<subseteq> moved'
   \<and> moved' \<subseteq> moved \<union> (\<Union>r \<in> set rs'. chunk_id ` set (supporting_reviews r))
   \<and> (\<forall>j < length rs. \<exists>promoted.
         supporting_reviews (rs' ! j) = supporting_reviews (rs ! j) @ promoted
         \<and> chunk_id ` set promoted \<subseteq> moved')"
proof (induction rs arbitrary: moved rs' moved')
  case Nil
  then show ?case by auto
next
  case (Cons a rs)
  from Cons.prems obtain revs m1 e1 rest' where
    c: "contexts_loop lower (product a) cs (supporting_reviews a) moved
          (chunk_id ` set (supporting_reviews a)) = Inr (revs, m1, e1)"
    and r: "products_loop lower cs rs m1 = Inr (rest', moved')"
    and rs': "rs' = a \<lparr> supporting_reviews := revs \<rparr> # rest'"
    by (auto split: sum.splits prod.splits)
  from contexts_loop_char [OF c] obtain promoted where p:
    "revs = supporting_reviews a @ promoted" "m1 = moved \<union> chunk_id ` set promoted" by blast
  from Cons.IH [OF r] have ih:
    "length rest' = length rs" "m1 \<subseteq> moved'"
    "moved' \<subseteq> m1 \<union> (\<Union>r \<in> set rest'. chunk_id ` set (supporting_reviews r))"
    "\<forall>j < length rs. \<exists>promoted.
         supporting_reviews (rest' ! j) = supporting_reviews (rs ! j) @ promoted
         \<and> chunk_id ` set promoted \<subseteq> moved'"
    by auto
  have 1: "length rs' = length (a # rs)" using rs' ih(1) by simp
  have 2: "moved \<subseteq> moved'" using p(2) ih(2) by auto
  have 3: "moved' \<subseteq> moved \<union> (\<Union>r \<in> set rs'. chunk_id ` set (supporting_reviews r))"
    using ih(3) p rs' by auto
  have 4: "\<forall>j < length (a # rs). \<exists>promoted.
         supporting_reviews (rs' ! j) = supporting_reviews ((a # rs) ! j) @ promoted
         \<and> chunk_id ` set promoted \<subseteq> moved'"
  proof (intro allI impI)
    fix j assume j: "j < length (a # rs)"
    show "\<exists>promoted. supporting_reviews (rs' ! j) = supporting_reviews ((a # rs) ! j) @ promoted
         \<and> chunk_id ` set promoted \<subseteq> moved'"
    proof (cases j)
      case 0
      with rs' p ih(2) show ?thesis by auto
    next
      case (Suc k)
      with j ih(4) rs' show ?thesis by auto
    qed
  qed
  from 1 2 3 4 show ?case by blast
qed

lemma reconcile_char:
  assumes "reconcile_evidence lower r = Inr r'"
  shows "\<exists>moved. rag_contexts r' = Some (filter (\<lambda>c. chunk_id c \<notin> moved) (the_list (rag_contexts r)))
     \<and> moved \<subseteq> (\<Union>p \<in> set (the_list (results r')). chunk_id ` set (supporting_reviews p))
     \<and> length (the_list (results r')) = length (the_list (results r))
     \<and> (\<forall>j < length (the_list (results r)). \<exists>promoted.
           supporting_reviews (the_list (results r') ! j)
             = supporting_reviews (the_list (results r) ! j) @ promoted
           \<and> chunk_id ` set promoted \<subseteq> moved)"
proof (cases "nonempty (results r)")
  case False
  with assms have "r' = r \<lparr> rag_contexts := Some (filter (\<lambda>c. chunk_id c \<notin> {}) (the_list (rag_contexts r))) \<rparr>"
    by (simp add: reconcile_evidence_def Let_def)
  then have "rag_contexts r' = Some (filter (\<lambda>c. chunk_id c \<notin> {}) (the_list (rag_contexts r)))"
    and "results r' = results r" by simp_all
  moreover from False have "the_list (results r) = []" by (cases "results r") auto
  ultimately show ?thesis by (intro exI [of _ "{}"]) simp
next
  case True
  with assms obtain rs moved where
    pl: "products_loop lower (the_list (rag_contexts r)) (the_list (results r)) {} = Inr (rs, moved)"
    and r': "r' = r \<lparr> results := Some rs,
                    rag_contexts := Some (filter (\<lambda>c. chunk_id c \<notin> moved) (the_list (rag_contexts r))) \<rparr>"
    by (auto simp: reconcile_evidence_def Let_def split: sum.splits prod.splits)
  from products_loop_char [OF pl] r' show ?thesis
    by (intro exI [of _ moved]) auto
qed

lemma hydrate_used_ids:
  "map chunk_id (hydrate_used m ids) = filter (hydratable m) ids"
proof (induction ids)
  case Nil
  show ?case by simp
next
  case (Cons i ids)
  have cid: "\<And>raw c. hydrate_context i raw = Some c \<Longrightarrow> chunk_id c = i"
    by (auto simp: hydrate_context_def Let_def split: if_splits elim!: build_chunk.elims)
  from Cons show ?case
    by (auto simp: hydratable_def split: option.splits dest: cid)
qed

lemma rag_contexts_validate_rerank:
  "rag_contexts (rerank_by_margin (validate_results dict r)) = rag_contexts r"
  by (simp add: rerank_by_margin_def validate_results_def Let_def)












text \<open>
  Claim C8, as the code has it. The top-level list of a completed request is the list
  of the hydrated used chunks of the model's response, in that order, without the chunks
  whose id was moved; every moved id is the id of a supporting review of some result, and
  the ids of the chunks that reconciliation appended to a product are moved. The hydrated
  used chunks follow the order of the model's \<open>used_rag_context_ids\<close>.
\<close>

theorem top_level_contexts:
  "(conversational_search env convs search_query = (Inr resp, convs') \<longrightarrow>
     (\<exists>rag_results llm_response moved. vector_store env (query search_query) 10 = Some rag_results \<and>
        get_conversational_response env (query search_query) rag_results
            (sq_session_id search_query) (history_for_llm convs search_query) = Inr llm_response \<and>
        (let ranked = the_list (results (rerank_by_margin
                        (validate_results (product_catalog_dict (product_catalog_list env)) llm_response)))
         in rag_contexts resp =
              Some (filter (\<lambda>c. chunk_id c \<notin> moved) (the_list (rag_contexts llm_response)))
            \<and> moved \<subseteq> (\<Union>p \<in> set (the_list (results resp)). chunk_id ` set (supporting_reviews p))
            \<and> (\<forall>j < length ranked. \<exists>promoted.
                  supporting_reviews (the_list (results resp) ! j)
                    = supporting_reviews (ranked ! j) @ promoted
                  \<and> chunk_id ` set promoted \<subseteq> moved))))
   \<and> rag_contexts (build_response env rags sid llm_json_response) =
       Some (hydrate_used (raw_dict_map rags) (lj_used_rag_context_ids llm_json_response))
   \<and> map chunk_id (hydrate_used m ids) = filter (hydratable m) ids"
proof (intro conjI impI)
  assume a: "conversational_search env convs search_query = (Inr resp, convs')"
  let ?dict = "product_catalog_dict (product_catalog_list env)"
  from conversational_search_stages [OF a] obtain rag_results llm where
    v: "vector_store env (query search_query) 10 = Some rag_results" and
    g: "get_conversational_response env (query search_query) rag_results (sq_session_id search_query)
               (history_for_llm convs search_query) = Inr llm" and
    rec: "reconcile_evidence (str_lower env) (rerank_by_margin (validate_results ?dict llm)) = Inr resp"
    by blast
  let ?pre = "rerank_by_margin (validate_results ?dict llm)"
  from reconcile_char [OF rec] obtain moved where
    m: "rag_contexts resp = Some (filter (\<lambda>c. chunk_id c \<notin> moved) (the_list (rag_contexts ?pre)))"
       "moved \<subseteq> (\<Union>p \<in> set (the_list (results resp)). chunk_id ` set (supporting_reviews p))"
       "\<forall>j < length (the_list (results ?pre)). \<exists>promoted.
           supporting_reviews (the_list (results resp) ! j)
             = supporting_reviews (the_list (results ?pre) ! j) @ promoted
           \<and> chunk_id ` set promoted \<subseteq> moved"
    by blast
  from m(1) have m1: "rag_contexts resp = Some (filter (\<lambda>c. chunk_id c \<notin> moved) (the_list (rag_contexts llm)))"
    by (simp only: rag_contexts_validate_rerank)
  from v g m1 m(2) m(3)
  show "\<exists>rag_results llm_response moved. vector_store env (query search_query) 10 = Some rag_results \<and>
        get_conversational_response env (query search_query) rag_results
            (sq_session_id search_query) (history_for_llm convs search_query) = Inr llm_response \<and>
        (let ranked = the_list (results (rerank_by_margin
                        (validate_results (product_catalog_dict (product_catalog_list env)) llm_response)))
         in rag_contexts resp =
              Some (filter (\<lambda>c. chunk_id c \<notin> moved) (the_list (rag_contexts llm_response)))
            \<and> moved \<subseteq> (\<Union>p \<in> set (the_list (results resp)). chunk_id ` set (supporting_reviews p))
            \<and> (\<forall>j < length ranked. \<exists>promoted.
                  supporting_reviews (the_list (results resp) ! j)
                    = supporting_reviews (ranked ! j) @ promoted
                  \<and> chunk_id ` set promoted \<subseteq> moved))"
    unfolding Let_def by blast
next
  show "rag_contexts (build_response env rags sid llm_json_response) =
       Some (hydrate_used (raw_dict_map rags) (lj_used_rag_context_ids llm_json_response))"
    by (simp add: build_response_def)
next
  show "map chunk_id (hydrate_used m ids) = filter (hydratable m) ids"
    by (rule hydrate_used_ids)
qed

section \<open>The example requests\<close>

lemma try_body_ex:
  "try_body (ex_env_on batch decoded) q rags history attempt raw js =
     (decoded, Some (py ''Here it is: {...} ok''), Some (py ''{...}''))"
  by (simp add: try_body_def ex_env_on_def py_rfind_def py_def py_slice_def Let_def)

lemma attempt_outcome_ex: "attempt_outcome (ex_env_on batch decoded) q rags history attempt = decoded"
  by (simp add: attempt_outcome_def try_body_ex)

lemma ex_key: "opt_str_truthy (GOOGLE_API_KEY (ex_env_on batch decoded))"
  by (simp add: ex_env_on_def py_Nil_iff)

lemma gcr_ex:
  "format_rag_contexts_error rags = None \<Longrightarrow>
   get_conversational_response (ex_env_on batch (Inr reply)) q rags sid history =
   Inr (build_response (ex_env_on batch (Inr reply)) rags sid reply)"
  by (simp add: get_conversational_response_def upt_max_retries try_body_ex ex_key)

lemma ex_format:
  "format_rag_contexts_error [ex_info_raw, ex_review_raw] = None"
  "format_rag_contexts_error [ex_other_review_raw] = None"
  by (simp_all add: ex_info_raw_def ex_review_raw_def ex_other_review_raw_def)

lemma ex_env_fields:
  "vector_store (ex_env_on batch d) q n = Some batch"
  "product_catalog_list (ex_env_on batch d) = ex_catalog"
  "str_lower (ex_env_on batch d) = ascii_lower"
  "uuid4 (ex_env_on batch d) = py ''uuid-1''"
  by (simp_all add: ex_env_on_def product_catalog_list_def)

lemma ex_raw_dict_map:
  "raw_dict_map [ex_info_raw, ex_review_raw] (py ''c1'') = Some ex_review_raw"
  "raw_dict_map [ex_info_raw, ex_review_raw] (py ''c2'') = Some ex_info_raw"
  "raw_dict_map [ex_other_review_raw] (py ''c3'') = Some ex_other_review_raw"
  by (simp_all add: raw_dict_map_def ex_info_raw_def ex_review_raw_def ex_other_review_raw_def
      py_eq_iff py_Nil_iff)

lemma ex_hydrate:
  "hydrate_context (py ''c1'') ex_review_raw = Some ex_review_chunk"
  "hydrate_context (py ''c2'') ex_info_raw = Some ex_info_chunk"
  "hydrate_review (py ''c1'') ex_review_raw = Some ex_review_chunk"
  "hydrate_context (py ''c3'') ex_other_review_raw = Some ex_other_review_chunk"
  by (simp_all add: hydrate_context_def hydrate_review_def ex_review_raw_def ex_info_raw_def
      ex_other_review_raw_def ex_review_chunk_def ex_info_chunk_def ex_other_review_chunk_def
      ex_review_metadata_def ex_info_metadata_def ex_other_review_metadata_def
      py_eq_iff py_Nil_iff Let_def)

lemma ex_catalog_dict:
  "product_catalog_dict ex_catalog (py ''P001'') =
     Some (ex_product (py ''P001'') (py ''Bright C Serum'') (Some (Num 55)))"
  "product_catalog_dict ex_catalog (py ''P002'') =
     Some (ex_product (py ''P002'') (py ''Calm Cream'') (Some (Num 40)))"
  "product_catalog_dict ex_catalog (py ''P999'') = None"
  by (simp_all add: product_catalog_dict_def ex_catalog_def ex_product_def py_eq_iff)

lemma ex_product_fields:
  "product_id (ex_product pid name margin) = pid"
  "product_name (ex_product pid name margin) = name"
  "margin_percentage (ex_product pid name margin) = margin"
  by (simp_all add: ex_product_def)

lemma ex_chunk_fields:
  "chunk_id ex_review_chunk = py ''c1''"
  "chunk_id ex_info_chunk = py ''c2''"
  "chunk_id ex_other_review_chunk = py ''c3''"
  "source_type ex_review_chunk = py ''review''"
  "source_type ex_info_chunk = py ''product_info''"
  "source_type ex_other_review_chunk = py ''review''"
  by (simp_all add: ex_review_chunk_def ex_info_chunk_def ex_other_review_chunk_def)





lemma conversational_search_ex_on:
  "format_rag_contexts_error batch = None \<Longrightarrow>
   conversational_search (ex_env_on batch (Inr reply)) convs ex_query =
     (case reconcile_evidence ascii_lower
             (rerank_by_margin (validate_results (product_catalog_dict ex_catalog)
                (build_response (ex_env_on batch (Inr reply)) batch None reply))) of
        Inl e \<Rightarrow> (Inl e, convs)
      | Inr resp \<Rightarrow> (Inr resp, update_history convs (query ex_query) resp))"
  by (simp add: conversational_search_def ex_env_fields gcr_ex Let_def)
     (simp add: ex_query_def)

lemma conversational_search_ex:
  "conversational_search (ex_env (Inr reply)) convs ex_query =
     (case reconcile_evidence ascii_lower
             (rerank_by_margin (validate_results (product_catalog_dict ex_catalog)
                (build_response (ex_env (Inr reply)) [ex_info_raw, ex_review_raw] None reply))) of
        Inl e \<Rightarrow> (Inl e, convs)
      | Inr resp \<Rightarrow> (Inr resp, update_history convs (query ex_query) resp))"
  unfolding ex_env_def by (rule conversational_search_ex_on) (rule ex_format)

lemma ex_build_response:
  "build_response (ex_env_on batch d) rags None (ex_reply items used_ids) =
     \<lparr> session_id = Some (py ''uuid-1''),
       results = map_option (map (result_of_json rags)) items,
       rag_contexts = Some (hydrate_used (raw_dict_map rags) used_ids),
       follow_up_questions = Some [],
       answer = None,
       contextual_justification = Some (py ''Here are some suggestions.'') \<rparr>"
  by (simp add: build_response_def ex_reply_def ex_env_fields)

lemmas ex_build_response_env =
  ex_build_response [of "[ex_info_raw, ex_review_raw]", folded ex_env_def]

lemmas ex_env_fields_env =
  ex_env_fields [of "[ex_info_raw, ex_review_raw]", folded ex_env_def]

lemma ex_merge_run:
  "\<exists>resp convs'. conversational_search (ex_env (Inr ex_reply_merge)) Map.empty ex_query = (Inr resp, convs')
     \<and> map (\<lambda>r. product_name (product r)) (the_list (results resp)) = [py ''Bright C Serum'']"
  by (simp add: conversational_search_ex ex_build_response_env ex_reply_merge_def ex_item_def
      result_of_json_def validate_results_def rerank_by_margin_def sort_by_margin_desc_foldr
      reconcile_evidence_def ex_product_fields ex_catalog_dict Let_def)

text \<open>
  The catalog merge at the first reply: the request completes with one result, the
  catalog's serum under its catalog name.
\<close>

theorem catalog_merge_witness:
  "\<exists>resp convs'. conversational_search (ex_env (Inr ex_reply_merge)) Map.empty ex_query = (Inr resp, convs')
     \<and> map (\<lambda>r. product_name (product r)) (the_list (results resp)) = [py ''Bright C Serum'']
     \<and> list_all (\<lambda>r. product_catalog_dict ex_catalog (product_id (product r)) = Some (product r))
         (the_list (results resp))"
proof -
  from ex_merge_run obtain resp convs' where
    run: "conversational_search (ex_env (Inr ex_reply_merge)) Map.empty ex_query = (Inr resp, convs')"
    and names: "map (\<lambda>r. product_name (product r)) (the_list (results resp)) = [py ''Bright C Serum'']"
    by auto
  from catalog_merge [of "ex_env (Inr ex_reply_merge)" Map.empty ex_query resp convs'] run
  have "\<forall>r \<in> set (the_list (results resp)).
          product_catalog_dict ex_catalog (product_id (product r)) = Some (product r)"
    by (simp add: ex_env_fields_env)
  then have "list_all (\<lambda>r. product_catalog_dict ex_catalog (product_id (product r)) = Some (product r))
         (the_list (results resp))"
    by (simp add: list_all_iff)
  with run names show ?thesis by auto
qed

text \<open>
  Claim C2 at the second reply: the review \<open>c1\<close>, which the model cited both as the
  serum's supporting review and as a used context, is in the serum's supporting reviews
  and in the top-level list of the response.
\<close>

theorem evidence_overlap:
  "\<exists>resp convs'. conversational_search (ex_env (Inr ex_reply_overlap)) Map.empty ex_query = (Inr resp, convs')
     \<and> map (\<lambda>r. map chunk_id (supporting_reviews r)) (the_list (results resp)) = [[py ''c1'']]
     \<and> map chunk_id (the_list (rag_contexts resp)) = [py ''c2'', py ''c1'']"
  by (simp add: conversational_search_ex ex_build_response_env ex_reply_overlap_def ex_item_def
      result_of_json_def validate_results_def rerank_by_margin_def sort_by_margin_desc_foldr
      reconcile_evidence_def ex_product_fields ex_catalog_dict Let_def
      ex_raw_dict_map ex_hydrate ex_chunk_fields py_eq_iff)








lemma ex_order_run:
  "\<exists>resp convs'. conversational_search (ex_env (Inr ex_reply_order)) Map.empty ex_query = (Inr resp, convs')
     \<and> results resp = None
     \<and> map chunk_id (the_list (rag_contexts resp)) = [py ''c1'', py ''c2'']"
  by (simp add: conversational_search_ex ex_build_response_env ex_reply_order_def
      validate_results_def rerank_by_margin_def reconcile_evidence_def Let_def
      ex_raw_dict_map ex_hydrate ex_chunk_fields)

text \<open>
  Claim C8 fails at the fifth reply: the retrieval batch is \<open>c2, c1\<close>, the model lists
  \<open>c1, c2\<close>, and the top-level list of the response is \<open>c1, c2\<close>.
\<close>

theorem top_level_contexts_counterexample:
  "vector_store (ex_env (Inr ex_reply_order)) (query ex_query) 10 = Some [ex_info_raw, ex_review_raw]
   \<and> map rr_id [ex_info_raw, ex_review_raw] = [py ''c2'', py ''c1'']
   \<and> (\<exists>resp convs'.
        conversational_search (ex_env (Inr ex_reply_order)) Map.empty ex_query = (Inr resp, convs')
        \<and> map chunk_id (the_list (rag_contexts resp)) = [py ''c1'', py ''c2''])"
  using ex_order_run by (auto simp: ex_env_fields_env ex_info_raw_def ex_review_raw_def)

text \<open>
  The top-level list at the fifth reply: no id is moved, and the list is the model's
  used chunks in the model's order.
\<close>

theorem top_level_contexts_witness:
  "\<exists>resp convs'. conversational_search (ex_env (Inr ex_reply_order)) Map.empty ex_query = (Inr resp, convs')
     \<and> map chunk_id (the_list (rag_contexts resp)) = [py ''c1'', py ''c2'']
     \<and> (\<exists>llm_response moved.
           get_conversational_response (ex_env (Inr ex_reply_order))
               (query ex_query) [ex_info_raw, ex_review_raw] None [] = Inr llm_response
           \<and> moved = {}
           \<and> rag_contexts resp = Some (filter (\<lambda>c. chunk_id c \<notin> moved)
                (the_list (rag_contexts llm_response))))"
proof -
  from ex_order_run obtain resp convs' where
    run: "conversational_search (ex_env (Inr ex_reply_order)) Map.empty ex_query = (Inr resp, convs')"
    and none: "results resp = None"
    and ids: "map chunk_id (the_list (rag_contexts resp)) = [py ''c1'', py ''c2'']"
    by auto
  have h: "history_for_llm Map.empty ex_query = []" "sq_session_id ex_query = None"
    by (simp_all add: history_for_llm_def ex_query_def)
  note t = top_level_contexts [of "ex_env (Inr ex_reply_order)" Map.empty ex_query resp convs',
      THEN conjunct1, rule_format, OF run]
  from t obtain llm moved where
    g: "get_conversational_response (ex_env (Inr ex_reply_order))
               (query ex_query) [ex_info_raw, ex_review_raw] None [] = Inr llm"
    and m: "rag_contexts resp = Some (filter (\<lambda>c. chunk_id c \<notin> moved) (the_list (rag_contexts llm)))"
       "moved \<subseteq> (\<Union>p \<in> set (the_list (results resp)). chunk_id ` set (supporting_reviews p))"
    by (auto simp: ex_env_fields_env h Let_def)
  from m(2) none have "moved = {}" by simp
  with g m(1) run ids show ?thesis by auto
qed

text \<open>
  The retry loop at a decoder that always fails: the three replies are texts, each
  attempt ends in a JSON-decode error, and the response is the parse-error one.
\<close>

theorem retries_exhausted_witness:
  "opt_str_truthy (GOOGLE_API_KEY (ex_env (Inl JSONDecodeError)))
   \<and> format_rag_contexts_error [ex_info_raw, ex_review_raw] = None
   \<and> send_message (ex_env (Inl JSONDecodeError)) (query ex_query) [ex_info_raw, ex_review_raw] [] 0
       = ReplyText (py ''Here it is: {...} ok'')
   \<and> attempt_outcome (ex_env (Inl JSONDecodeError)) (query ex_query) [ex_info_raw, ex_review_raw] [] 0
       = Inl JSONDecodeError
   \<and> attempt_outcome (ex_env (Inl JSONDecodeError)) (query ex_query) [ex_info_raw, ex_review_raw] [] 1
       = Inl JSONDecodeError
   \<and> attempt_outcome (ex_env (Inl JSONDecodeError)) (query ex_query) [ex_info_raw, ex_review_raw] [] 2
       = Inl JSONDecodeError
   \<and> get_conversational_response (ex_env (Inl JSONDecodeError)) (query ex_query)
        [ex_info_raw, ex_review_raw] None [] =
          Inr \<lparr> session_id = None, results = Some [], rag_contexts = Some [], follow_up_questions = Some [],
            answer = Some (py ''Sorry, I had trouble processing that. Could you try rephrasing?''),
            contextual_justification = Some (py ''LLM response parsing error after multiple attempts.'') \<rparr>"
proof -
  let ?env = "ex_env (Inl JSONDecodeError)" and ?rags = "[ex_info_raw, ex_review_raw]"
  have key: "opt_str_truthy (GOOGLE_API_KEY ?env)"
    by (simp add: ex_env_def ex_key)
  have fmt: "format_rag_contexts_error ?rags = None" by (rule ex_format)
  have snd: "\<And>i. send_message ?env (query ex_query) ?rags [] i = ReplyText (py ''Here it is: {...} ok'')"
    by (simp add: ex_env_def ex_env_on_def)
  have att: "\<And>i. attempt_outcome ?env (query ex_query) ?rags [] i = Inl JSONDecodeError"
    by (simp add: ex_env_def attempt_outcome_ex)
  have rep: "\<exists>raw. send_message ?env (query ex_query) ?rags [] 0 = ReplyText raw"
    using snd by blast
  have all: "\<forall>i < max_retries. attempt_outcome ?env (query ex_query) ?rags [] i = Inl JSONDecodeError"
    using att by blast
  from retries_exhausted [of ?env ?rags "query ex_query" "[]" None, THEN conjunct1] key fmt rep all
  have "get_conversational_response ?env (query ex_query) ?rags None [] =
          Inr \<lparr> session_id = None, results = Some [], rag_contexts = Some [], follow_up_questions = Some [],
            answer = Some (py ''Sorry, I had trouble processing that. Could you try rephrasing?''),
            contextual_justification = Some (py ''LLM response parsing error after multiple attempts.'') \<rparr>"
    by blast
  with key fmt snd att show ?thesis by blast
qed

text \<open>
  The session store at the fifth reply, from the empty store: the new session holds the
  user turn and the model turn.
\<close>

theorem session_bound_witness:
  "\<exists>resp convs' h. conversational_search (ex_env (Inr ex_reply_order)) Map.empty ex_query = (Inr resp, convs')
     \<and> convs' (session_id resp) = Some h \<and> map role h = [py ''user'', py ''model'']
     \<and> length h \<le> 2 * MAX_HISTORY_TURNS"
proof -
  from ex_order_run obtain resp convs' where
    run: "conversational_search (ex_env (Inr ex_reply_order)) Map.empty ex_query = (Inr resp, convs')"
    by auto
  note t = session_bound [of "ex_env (Inr ex_reply_order)" Map.empty ex_query resp convs',
      THEN conjunct1, rule_format, OF run]
  from t obtain h where h: "convs' (session_id resp) = Some h" "length h \<le> 2 * MAX_HISTORY_TURNS"
    "h = (let full = (case Map.empty (session_id resp) of None \<Rightarrow> [] | Some h0 \<Rightarrow> h0)
                   @ [\<lparr> role = py ''user'', parts = [query ex_query] \<rparr>,
                      \<lparr> role = py ''model'', parts = [response_summary_for_history resp] \<rparr>]
               in drop (length full - 2 * MAX_HISTORY_TURNS) full)"
    by auto
  from h(3) have "map role h = [py ''user'', py ''model'']"
    by (simp add: Let_def MAX_HISTORY_TURNS_def)
  with run h(1,2) show ?thesis by auto
qed

end
